theory Spec2Isabelle
  imports Complex_Main "HOL-Library.AList" "HOL-Library.Sublist"
begin

section \<open>Values, errors and the JavaScript platform\<close>

text \<open>
  The dashboard fetches two JSON documents over HTTPS and prints them. Its data are the
  values \<^verbatim>\<open>JSON.parse\<close> returns (TypeScript's types are erased at run time, so a
  payload is any JSON value), JavaScript error objects, and console lines. \<open>None\<close> of
  type \<open>jsval\<close> is JavaScript's \<^verbatim>\<open>undefined\<close>. Strings are byte lists in UTF-8.
\<close>

datatype json =
    JNull
  | JBool bool
  | JNumber real
  | JString string
  | JArray "json list"
  | JObject "(string \<times> json) list"

type_synonym jsval = "json option"

datatype js_error = JsError string | JsTypeError string | JsSyntaxError string

fun message :: "js_error \<Rightarrow> string" where
  "message (JsError m) = m"
| "message (JsTypeError m) = m"
| "message (JsSyntaxError m) = m"

text \<open>
  What the program takes from the JavaScript runtime and its standard library, as
  parameters: \<^verbatim>\<open>JSON.parse\<close> (\<open>Inl\<close> is the error it throws), the text of a number,
  the formatting \<^verbatim>\<open>console.log\<close> gives a further argument (\<^verbatim>\<open>util.inspect\<close>, which
  does not call \<^verbatim>\<open>toString\<close>), the number a string stands for (\<open>None\<close> is NaN), and
  the \<^verbatim>\<open>URL\<close> class (a base address with query parameters set on it). The key of the
  news service, a secret of the configuration, is a parameter as well.
\<close>

record platform =
  JSON_parse :: "string \<Rightarrow> js_error + json"
  numberText :: "real \<Rightarrow> string"
  inspect :: "json \<Rightarrow> string"
  stringToNumber :: "string \<Rightarrow> real option"
  urlWithParams :: "string \<Rightarrow> (string \<times> string) list \<Rightarrow> string"
  NEWS_API_KEY :: string

text \<open>
  The conversion of a value to a string, as a template literal and \<^verbatim>\<open>String\<close> do it.
  An array is joined with commas, null elements giving the empty string. An object is
  converted by its \<^verbatim>\<open>toString\<close>: a parsed object inherits the one that answers
  \<^verbatim>\<open>[object Object]\<close>, unless it has a property of that name itself; such a property
  is no function, \<^verbatim>\<open>valueOf\<close> gives no primitive either, and the conversion throws.
\<close>

definition not_primitive :: js_error where
  "not_primitive = JsTypeError ''Cannot convert object to primitive value''"

fun ToString :: "platform \<Rightarrow> json \<Rightarrow> js_error + string"
  and join :: "platform \<Rightarrow> json list \<Rightarrow> js_error + string" where
  "ToString P JNull = Inr ''null''"
| "ToString P (JBool b) = Inr (if b then ''true'' else ''false'')"
| "ToString P (JNumber x) = Inr (numberText P x)"
| "ToString P (JString s) = Inr s"
| "ToString P (JArray xs) = join P xs"
| "ToString P (JObject kvs) =
     (case map_of kvs ''toString'' of
        None \<Rightarrow> Inr ''[object Object]''
      | Some f \<Rightarrow> Inl not_primitive)"
| "join P [] = Inr []"
| "join P (x # rest) =
     (case (if x = JNull then Inr [] else ToString P x) of
        Inl thrown \<Rightarrow> Inl thrown
      | Inr s \<Rightarrow>
          if rest = [] then Inr s
          else (case join P rest of
                  Inl thrown \<Rightarrow> Inl thrown
                | Inr t \<Rightarrow> Inr (s @ '','' @ t)))"

text \<open>\<^verbatim>\<open>${v}\<close> in a template literal: the text, or the TypeError the conversion throws.\<close>

definition template :: "platform \<Rightarrow> jsval \<Rightarrow> js_error + string" where
  "template P v = (case v of None \<Rightarrow> Inr ''undefined'' | Some j \<Rightarrow> ToString P j)"

definition converts :: "platform \<Rightarrow> jsval \<Rightarrow> bool" where
  "converts P v = (case template P v of Inl thrown \<Rightarrow> False | Inr s \<Rightarrow> True)"

text \<open>
  The numeric conversion of the operand of \<^verbatim>\<open>> 0\<close>: an array or an object is first
  made a primitive, which ends in its \<^verbatim>\<open>toString\<close> as above.
\<close>

definition ToNumber :: "platform \<Rightarrow> json \<Rightarrow> js_error + real option" where
  "ToNumber P v =
     (case v of
        JNull \<Rightarrow> Inr (Some 0)
      | JBool b \<Rightarrow> Inr (Some (if b then 1 else 0))
      | JNumber x \<Rightarrow> Inr (Some x)
      | JString s \<Rightarrow> Inr (stringToNumber P s)
      | JArray xs \<Rightarrow>
          (case ToString P v of Inl thrown \<Rightarrow> Inl thrown | Inr s \<Rightarrow> Inr (stringToNumber P s))
      | JObject kvs \<Rightarrow>
          (case ToString P v of Inl thrown \<Rightarrow> Inl thrown | Inr s \<Rightarrow> Inr (stringToNumber P s)))"

text \<open>A further argument of \<^verbatim>\<open>console.log\<close>: a string is printed as it is.\<close>

definition log_arg :: "platform \<Rightarrow> jsval \<Rightarrow> string" where
  "log_arg P v =
     (case v of None \<Rightarrow> ''undefined'' | Some (JString s) \<Rightarrow> s | Some j \<Rightarrow> inspect P j)"

text \<open>The decimal digits of a status code or of a list position.\<close>

fun decimal :: "nat \<Rightarrow> string" where
  "decimal n =
     (if n < 10 then [''0123456789'' ! n]
      else decimal (n div 10) @ [''0123456789'' ! (n mod 10)])"

declare decimal.simps [simp del]

text \<open>
  Truthiness, property access and \<^verbatim>\<open>??\<close>. The property names the program reads
  (\<^verbatim>\<open>current_weather\<close>, \<^verbatim>\<open>temperature\<close>, \<^verbatim>\<open>windspeed\<close>, \<^verbatim>\<open>articles\<close>, \<^verbatim>\<open>posts\<close>,
  \<^verbatim>\<open>title\<close>) are own properties of objects only; \<^verbatim>\<open>length\<close> and indices are
  modelled where the program uses them.
\<close>

fun truthy :: "jsval \<Rightarrow> bool" where
  "truthy None = False"
| "truthy (Some JNull) = False"
| "truthy (Some (JBool b)) = b"
| "truthy (Some (JNumber x)) = (x \<noteq> 0)"
| "truthy (Some (JString s)) = (s \<noteq> [])"
| "truthy (Some (JArray xs)) = True"
| "truthy (Some (JObject kvs)) = True"

text \<open>The value a guard \<^verbatim>\<open>if (v)\<close> lets through.\<close>

definition if_truthy :: "jsval \<Rightarrow> jsval" where
  "if_truthy v = (if truthy v then v else None)"

text \<open>\<^verbatim>\<open>v.name\<close> on a value that is neither null nor undefined.\<close>

fun get_prop :: "json \<Rightarrow> string \<Rightarrow> jsval" where
  "get_prop (JObject kvs) name = map_of kvs name"
| "get_prop v name = None"

text \<open>\<^verbatim>\<open>v?.name\<close>.\<close>

fun opt_get :: "jsval \<Rightarrow> string \<Rightarrow> jsval" where
  "opt_get None name = None"
| "opt_get (Some JNull) name = None"
| "opt_get (Some v) name = get_prop v name"

text \<open>\<^verbatim>\<open>v ?? d\<close>.\<close>

fun nullish_or :: "jsval \<Rightarrow> json \<Rightarrow> json" where
  "nullish_or None d = d"
| "nullish_or (Some JNull) d = d"
| "nullish_or (Some v) d = v"

section \<open>Console, network and the world\<close>

datatype line = Out string | Err string

record request =
  target :: string
  http_method :: string
  headers :: "(string \<times> string) list"

text \<open>
  A response streams its body: \<^verbatim>\<open>data\<close> events, then \<^verbatim>\<open>end\<close>. A request is
  answered by a transport error or by a response with its status code (which the typings
  allow to be undefined) and the events received so far.
\<close>

datatype res_event = Data string | End

datatype reply = NetworkError js_error | Response "nat option" "res_event list"

text \<open>The network answers the \<open>n\<close>-th request of a run.\<close>

type_synonym network = "nat \<Rightarrow> request \<Rightarrow> reply"

record world =
  requests :: "request list"
  console :: "line list"
  uncaught :: "js_error list"

definition console_log :: "string \<Rightarrow> world \<Rightarrow> world" where
  "console_log s w = w\<lparr>console := console w @ [Out s]\<rparr>"

definition console_error :: "string \<Rightarrow> world \<Rightarrow> world" where
  "console_error s w = w\<lparr>console := console w @ [Err s]\<rparr>"

definition https_get :: "network \<Rightarrow> request \<Rightarrow> world \<Rightarrow> reply \<times> world" where
  "https_get net rq w = (net (length (requests w)) rq, w\<lparr>requests := requests w @ [rq]\<rparr>)"

text \<open>
  The listeners \<^verbatim>\<open>res.on("data", chunk => raw += chunk)\<close> and \<^verbatim>\<open>res.on("end", ...)\<close>:
  the accumulated body is handed on when \<^verbatim>\<open>end\<close> arrives, and not before.
\<close>

fun receive :: "string \<Rightarrow> res_event list \<Rightarrow> string option" where
  "receive raw [] = None"
| "receive raw (Data chunk # es) = receive (raw @ chunk) es"
| "receive raw (End # es) = Some raw"

text \<open>\<^verbatim>\<open>statusCode && statusCode >= 400\<close>.\<close>

fun is_error_status :: "nat option \<Rightarrow> bool" where
  "is_error_status None = False"
| "is_error_status (Some c) = (c \<noteq> 0 \<and> 400 \<le> c)"

fun status_text :: "nat option \<Rightarrow> string" where
  "status_text None = ''undefined''"
| "status_text (Some c) = decimal c"

section \<open>The HTTP client (utils/httpClient)\<close>

record HttpRequestOptions =
  opt_headers :: "(string \<times> string) list option"

text \<open>
  An object spread \<^verbatim>\<open>{ ...base, ...extra }\<close>: each key of \<open>extra\<close> is set on the object in
  turn, replacing the value of a key already there.
\<close>

definition spread :: "(string \<times> string) list \<Rightarrow> (string \<times> string) list option
    \<Rightarrow> (string \<times> string) list" where
  "spread base extra =
     (case extra of None \<Rightarrow> base
      | Some kvs \<Rightarrow> fold (\<lambda>(k, v) obj. AList.update k v obj) kvs base)"

definition USER_AGENT :: string where
  "USER_AGENT = ''AsyncWeatherNewsDashboard/1.0''"

text \<open>
  The request options both client functions build. The address stands for its host name
  and its path with the query, which the source reads off the parsed URL.
\<close>

definition reqOptions :: "string \<Rightarrow> HttpRequestOptions \<Rightarrow> request" where
  "reqOptions url requestOptions =
     \<lparr>target = url, http_method = ''GET'',
      headers = spread [(''User-Agent'', USER_AGENT)] (opt_headers requestOptions)\<rparr>"

text \<open>
  A callback gets an error or the parsed data, may write to the console and start further
  requests, and may throw (\<open>Some\<close> is the exception that leaves it).
\<close>

type_synonym callback = "js_error + json \<Rightarrow> world \<Rightarrow> js_error option \<times> world"

text \<open>\<^verbatim>\<open>cb(...)\<close>, where \<^verbatim>\<open>cb = callback!\<close> may be undefined.\<close>

definition call :: "callback option \<Rightarrow> js_error + json \<Rightarrow> world \<Rightarrow> js_error option \<times> world" where
  "call cb outcome w =
     (case cb of None \<Rightarrow> (Some (JsTypeError ''cb is not a function''), w)
      | Some f \<Rightarrow> f outcome w)"

definition http_error :: "nat option \<Rightarrow> string \<Rightarrow> js_error" where
  "http_error statusCode errorBody =
     JsError (''HTTP request failed with status '' @ status_text statusCode @ '': '' @ errorBody)"

text \<open>
  \<^verbatim>\<open>httpGetJson(url, options, callback)\<close>, also called as \<^verbatim>\<open>httpGetJson(url, callback)\<close>.
  The result is the exception that leaves the event handler, if any. On a status below
  400 the callback is called inside the \<^verbatim>\<open>try\<close> block that guards \<^verbatim>\<open>JSON.parse\<close>, so
  an exception the callback throws reaches the \<^verbatim>\<open>catch\<close> clause as well.
\<close>

definition httpGetJson :: "platform \<Rightarrow> network \<Rightarrow> string \<Rightarrow> callback + HttpRequestOptions
    \<Rightarrow> callback option \<Rightarrow> world \<Rightarrow> js_error option \<times> world" where
  "httpGetJson P net url options callback w =
     (let requestOptions = (case options of Inl f \<Rightarrow> \<lparr>opt_headers = None\<rparr> | Inr opts \<Rightarrow> opts);
          cb = (case options of Inl f \<Rightarrow> Some f | Inr opts \<Rightarrow> callback);
          got = https_get net (reqOptions url requestOptions) w;
          w1 = snd got
      in case fst got of
           NetworkError networkError \<Rightarrow> call cb (Inl networkError) w1
         | Response statusCode events \<Rightarrow>
             if is_error_status statusCode then
               (case receive [] events of
                  None \<Rightarrow> (None, w1)
                | Some errorBody \<Rightarrow> call cb (Inl (http_error statusCode errorBody)) w1)
             else
               (case receive [] events of
                  None \<Rightarrow> (None, w1)
                | Some rawData \<Rightarrow>
                    (case JSON_parse P rawData of
                       Inl parseError \<Rightarrow> call cb (Inl parseError) w1
                     | Inr parsedData \<Rightarrow>
                         (case call cb (Inr parsedData) w1 of
                            (None, w2) \<Rightarrow> (None, w2)
                          | (Some thrown, w2) \<Rightarrow> call cb (Inl thrown) w2))))"

text \<open>A promise is pending, fulfilled with a value or rejected with an error.\<close>

datatype 'a promise = Pending | Fulfilled 'a | Rejected js_error

text \<open>
  The executor of \<^verbatim>\<open>httpGetJsonPromise\<close>: how the promise settles on a reply. It stays
  pending while the body has not ended.
\<close>

definition settle :: "platform \<Rightarrow> reply \<Rightarrow> json promise" where
  "settle P rep =
     (case rep of
        NetworkError networkError \<Rightarrow> Rejected networkError
      | Response statusCode events \<Rightarrow>
          if is_error_status statusCode then
            (case receive [] events of
               None \<Rightarrow> Pending
             | Some errorBody \<Rightarrow> Rejected (http_error statusCode errorBody))
          else
            (case receive [] events of
               None \<Rightarrow> Pending
             | Some rawData \<Rightarrow>
                 (case JSON_parse P rawData of
                    Inl parseError \<Rightarrow> Rejected parseError
                  | Inr parsedData \<Rightarrow> Fulfilled parsedData)))"

definition httpGetJsonPromise :: "platform \<Rightarrow> network \<Rightarrow> string \<Rightarrow> HttpRequestOptions option
    \<Rightarrow> world \<Rightarrow> json promise \<times> world" where
  "httpGetJsonPromise P net url options w =
     (let requestOptions = (case options of None \<Rightarrow> \<lparr>opt_headers = None\<rparr> | Some opts \<Rightarrow> opts);
          got = https_get net (reqOptions url requestOptions) w
      in (settle P (fst got), snd got))"

text \<open>A complete response: every chunk of the body, then \<^verbatim>\<open>end\<close>.\<close>

definition complete :: "nat option \<Rightarrow> string list \<Rightarrow> reply" where
  "complete statusCode chunks = Response statusCode (map Data chunks @ [End])"

section \<open>The flat scripts' fetch functions (callbackVersion, promiseVersion, asyncAwaitVersion)\<close>

text \<open>
  The older scripts pass the address itself to \<^verbatim>\<open>https.get\<close> and send no header of
  their own. On a status of 400 or more they call back at once with the status code
  alone, and \<^verbatim>\<open>res.resume()\<close> discards the body.
\<close>

definition legacy_error :: "nat option \<Rightarrow> js_error" where
  "legacy_error statusCode = JsError (''Request failed. Status code: '' @ status_text statusCode)"

definition httpsGetJson :: "platform \<Rightarrow> network \<Rightarrow> string \<Rightarrow> callback \<Rightarrow> world
    \<Rightarrow> js_error option \<times> world" where
  "httpsGetJson P net url callback w =
     (let got = https_get net \<lparr>target = url, http_method = ''GET'', headers = []\<rparr> w;
          w1 = snd got
      in case fst got of
           NetworkError err \<Rightarrow> callback (Inl err) w1
         | Response statusCode events \<Rightarrow>
             if is_error_status statusCode then callback (Inl (legacy_error statusCode)) w1
             else
               (case receive [] events of
                  None \<Rightarrow> (None, w1)
                | Some raw \<Rightarrow>
                    (case JSON_parse P raw of
                       Inl err \<Rightarrow> callback (Inl err) w1
                     | Inr parsed \<Rightarrow>
                         (case callback (Inr parsed) w1 of
                            (None, w2) \<Rightarrow> (None, w2)
                          | (Some thrown, w2) \<Rightarrow> callback (Inl thrown) w2))))"

definition https_settle :: "platform \<Rightarrow> reply \<Rightarrow> json promise" where
  "https_settle P rep =
     (case rep of
        NetworkError err \<Rightarrow> Rejected err
      | Response statusCode events \<Rightarrow>
          if is_error_status statusCode then Rejected (legacy_error statusCode)
          else
            (case receive [] events of
               None \<Rightarrow> Pending
             | Some raw \<Rightarrow>
                 (case JSON_parse P raw of
                    Inl err \<Rightarrow> Rejected err
                  | Inr parsed \<Rightarrow> Fulfilled parsed)))"

definition httpsGetJsonPromise :: "platform \<Rightarrow> network \<Rightarrow> string \<Rightarrow> world
    \<Rightarrow> json promise \<times> world" where
  "httpsGetJsonPromise P net url w =
     (let got = https_get net \<lparr>target = url, http_method = ''GET'', headers = []\<rparr> w
      in (https_settle P (fst got), snd got))"

section \<open>Configuration and the models (config/apiConfig, models)\<close>

definition WEATHER_API_base :: string where
  "WEATHER_API_base = ''https://api.open-meteo.com/v1/forecast''"

definition NEWS_API_base :: string where
  "NEWS_API_base = ''https://newsapi.org/v2''"

definition NEWS_API_topHeadlinesPath :: string where
  "NEWS_API_topHeadlinesPath = ''/top-headlines''"

definition DEFAULT_LOCATION_latitude :: real where
  "DEFAULT_LOCATION_latitude = - 25.7479"

definition DEFAULT_LOCATION_longitude :: real where
  "DEFAULT_LOCATION_longitude = 28.2293"

definition DEFAULT_LOCATION_city :: string where
  "DEFAULT_LOCATION_city = ''Pretoria''"

definition buildWeatherUrl :: "platform \<Rightarrow> real \<Rightarrow> real \<Rightarrow> string" where
  "buildWeatherUrl P latitude longitude =
     urlWithParams P WEATHER_API_base
       [(''latitude'', numberText P latitude),
        (''longitude'', numberText P longitude),
        (''current_weather'', ''true'')]"

definition buildNewsUrl :: "platform \<Rightarrow> string option \<Rightarrow> real option \<Rightarrow> string" where
  "buildNewsUrl P country pageSize =
     urlWithParams P (NEWS_API_base @ NEWS_API_topHeadlinesPath)
       [(''country'', case country of None \<Rightarrow> ''za'' | Some c \<Rightarrow> c),
        (''pageSize'', numberText P (case pageSize of None \<Rightarrow> 5 | Some n \<Rightarrow> n))]"

definition getNewsHeaders :: "platform \<Rightarrow> (string \<times> string) list" where
  "getNewsHeaders P = [(''X-Api-Key'', NEWS_API_KEY P)]"

definition weatherUrl :: "platform \<Rightarrow> real option \<Rightarrow> real option \<Rightarrow> string" where
  "weatherUrl P latitude longitude =
     buildWeatherUrl P
       (case latitude of None \<Rightarrow> DEFAULT_LOCATION_latitude | Some x \<Rightarrow> x)
       (case longitude of None \<Rightarrow> DEFAULT_LOCATION_longitude | Some x \<Rightarrow> x)"

definition newsUrl :: "platform \<Rightarrow> string option \<Rightarrow> real option \<Rightarrow> string" where
  "newsUrl P country pageSize =
     buildNewsUrl P
       (Some (case country of None \<Rightarrow> ''us'' | Some c \<Rightarrow> c))
       (Some (case pageSize of None \<Rightarrow> 5 | Some n \<Rightarrow> n))"

definition getWeatherCallback :: "platform \<Rightarrow> network \<Rightarrow> real option \<Rightarrow> real option
    \<Rightarrow> callback \<Rightarrow> world \<Rightarrow> js_error option \<times> world" where
  "getWeatherCallback P net latitude longitude callback w =
     httpGetJson P net (weatherUrl P latitude longitude) (Inl callback) None w"

definition getWeatherPromise :: "platform \<Rightarrow> network \<Rightarrow> real option \<Rightarrow> real option
    \<Rightarrow> world \<Rightarrow> json promise \<times> world" where
  "getWeatherPromise P net latitude longitude w =
     httpGetJsonPromise P net (weatherUrl P latitude longitude) None w"

definition getNewsCallback :: "platform \<Rightarrow> network \<Rightarrow> string option \<Rightarrow> real option
    \<Rightarrow> callback \<Rightarrow> world \<Rightarrow> js_error option \<times> world" where
  "getNewsCallback P net country pageSize callback w =
     httpGetJson P net (newsUrl P country pageSize)
       (Inr \<lparr>opt_headers = Some (getNewsHeaders P)\<rparr>) (Some callback) w"

definition getNewsPromise :: "platform \<Rightarrow> network \<Rightarrow> string option \<Rightarrow> real option
    \<Rightarrow> world \<Rightarrow> json promise \<times> world" where
  "getNewsPromise P net country pageSize w =
     httpGetJsonPromise P net (newsUrl P country pageSize)
       (Some \<lparr>opt_headers = Some (getNewsHeaders P)\<rparr>) w"

section \<open>The view (views/dashboardView)\<close>

text \<open>The symbols the view prints, as their UTF-8 bytes.\<close>

definition SUN_BEHIND_RAIN_CLOUD :: string where
  "SUN_BEHIND_RAIN_CLOUD = [CHR 0xF0, CHR 0x9F, CHR 0x8C, CHR 0xA6, CHR 0xEF, CHR 0xB8, CHR 0x8F]"

definition CLIPBOARD :: string where
  "CLIPBOARD = [CHR 0xF0, CHR 0x9F, CHR 0x93, CHR 0x8B]"

definition THERMOMETER :: string where
  "THERMOMETER = [CHR 0xF0, CHR 0x9F, CHR 0x8C, CHR 0xA1, CHR 0xEF, CHR 0xB8, CHR 0x8F]"

definition DASH_SYMBOL :: string where
  "DASH_SYMBOL = [CHR 0xF0, CHR 0x9F, CHR 0x92, CHR 0xA8]"

definition WARNING_SIGN :: string where
  "WARNING_SIGN = [CHR 0xE2, CHR 0x9A, CHR 0xA0, CHR 0xEF, CHR 0xB8, CHR 0x8F]"

definition NEWSPAPER :: string where
  "NEWSPAPER = [CHR 0xF0, CHR 0x9F, CHR 0x93, CHR 0xB0]"

definition CHECK_MARK :: string where
  "CHECK_MARK = [CHR 0xE2, CHR 0x9C, CHR 0x85]"

definition CROSS_MARK :: string where
  "CROSS_MARK = [CHR 0xE2, CHR 0x9D, CHR 0x8C]"

definition TROPHY :: string where
  "TROPHY = [CHR 0xF0, CHR 0x9F, CHR 0x8F, CHR 0x86]"

definition DEGREE_SIGN :: string where
  "DEGREE_SIGN = [CHR 0xC2, CHR 0xB0]"

definition EM_DASH :: string where
  "EM_DASH = [CHR 0xE2, CHR 0x80, CHR 0x94]"

definition NEWLINE :: string where
  "NEWLINE = [CHR 0x0A]"

definition rule50 :: string where
  "rule50 = replicate 50 (CHR ''='')"

definition displayHeader :: "string \<Rightarrow> world \<Rightarrow> world" where
  "displayHeader version w =
     (let w1 = console_log (NEWLINE @ rule50) w;
          w2 = console_log (SUN_BEHIND_RAIN_CLOUD @ ''  Async Weather & News Dashboard'') w1;
          w3 = console_log (CLIPBOARD @ ''  Version: '' @ version) w2
      in console_log (rule50 @ NEWLINE) w3)"

text \<open>\<^verbatim>\<open>label ? `[${label}] ` : ""\<close>, the label defaulting to the empty string.\<close>

definition label_prefix :: "string option \<Rightarrow> string" where
  "label_prefix label =
     (let l = (case label of None \<Rightarrow> [] | Some s \<Rightarrow> s)
      in if l \<noteq> [] then ''['' @ l @ ''] '' else [])"

definition weather_unavailable :: "string \<Rightarrow> string" where
  "weather_unavailable pfx = pfx @ WARNING_SIGN @ ''  Weather data unavailable.''"

text \<open>
  \<open>displayWeather\<close>: each line is built before it is printed, so a conversion that throws
  leaves the line unprinted (\<open>Some\<close> is the exception that leaves the function).
\<close>

definition displayWeather :: "platform \<Rightarrow> jsval \<Rightarrow> string option \<Rightarrow> world
    \<Rightarrow> js_error option \<times> world" where
  "displayWeather P data label w =
     (let prefix = label_prefix label;
          weather = opt_get data ''current_weather''
      in case if_truthy weather of
           Some current \<Rightarrow>
             (case template P (get_prop current ''temperature'') of
                Inl thrown \<Rightarrow> (Some thrown, w)
              | Inr temperature \<Rightarrow>
                  (let w1 = console_log (prefix @ THERMOMETER @ ''  Temperature in ''
                              @ DEFAULT_LOCATION_city @ '': '' @ temperature @ DEGREE_SIGN @ ''C'') w
                   in case template P (get_prop current ''windspeed'') of
                        Inl thrown \<Rightarrow> (Some thrown, w1)
                      | Inr windspeed \<Rightarrow>
                          (None, console_log (prefix @ DASH_SYMBOL @ ''  Wind Speed: ''
                                   @ windspeed @ '' km/h'') w1)))
         | None \<Rightarrow> (None, console_log (weather_unavailable prefix) w))"

text \<open>
  \<^verbatim>\<open>articles.length > 0\<close> on whatever value arrives: reading \<^verbatim>\<open>length\<close> of null or
  undefined throws, a number or a boolean has no length, and an object's \<^verbatim>\<open>length\<close>
  is compared after numeric conversion, which can throw as well.
\<close>

definition length_positive :: "platform \<Rightarrow> jsval \<Rightarrow> js_error + bool" where
  "length_positive P articles =
     (case articles of
        None \<Rightarrow> Inl (JsTypeError ''Cannot read properties of undefined (reading 'length')'')
      | Some JNull \<Rightarrow> Inl (JsTypeError ''Cannot read properties of null (reading 'length')'')
      | Some (JArray xs) \<Rightarrow> Inr (0 < length xs)
      | Some (JString s) \<Rightarrow> Inr (s \<noteq> [])
      | Some (JObject kvs) \<Rightarrow>
          (case map_of kvs ''length'' of
             None \<Rightarrow> Inr False
           | Some v \<Rightarrow>
               (case ToNumber P v of
                  Inl thrown \<Rightarrow> Inl thrown
                | Inr None \<Rightarrow> Inr False
                | Inr (Some x) \<Rightarrow> Inr (0 < x)))
      | Some (JBool b) \<Rightarrow> Inr False
      | Some (JNumber x) \<Rightarrow> Inr False)"

text \<open>
  The body of \<^verbatim>\<open>articles.forEach((article, index) => ...)\<close>: reading \<^verbatim>\<open>title\<close> of a
  null element throws and ends the loop, and so does a title that cannot be converted to
  a string.
\<close>

fun forEach_article :: "platform \<Rightarrow> json list \<Rightarrow> nat \<Rightarrow> world \<Rightarrow> js_error option \<times> world" where
  "forEach_article P [] index w = (None, w)"
| "forEach_article P (article # rest) index w =
     (if article = JNull
      then (Some (JsTypeError ''Cannot read properties of null (reading 'title')''), w)
      else (case template P (get_prop article ''title'') of
              Inl thrown \<Rightarrow> (Some thrown, w)
            | Inr title \<Rightarrow>
                forEach_article P rest (index + 1)
                  (console_log (''   '' @ decimal (index + 1) @ ''. '' @ title) w)))"

definition no_articles :: "string \<Rightarrow> string" where
  "no_articles pfx = pfx @ WARNING_SIGN @ ''  No news articles available.''"

definition displayNews :: "platform \<Rightarrow> jsval \<Rightarrow> string option \<Rightarrow> world
    \<Rightarrow> js_error option \<times> world" where
  "displayNews P articles label w =
     (let prefix = label_prefix label
      in case length_positive P articles of
           Inl thrown \<Rightarrow> (Some thrown, w)
         | Inr True \<Rightarrow>
             (let w1 = console_log (NEWLINE @ prefix @ NEWSPAPER @ ''  Top News Headlines:'') w
              in case articles of
                   Some (JArray xs) \<Rightarrow> forEach_article P xs 0 w1
                 | _ \<Rightarrow> (Some (JsTypeError ''articles.forEach is not a function''), w1))
         | Inr False \<Rightarrow> (None, console_log (no_articles prefix) w))"

definition displayFooter :: "string \<Rightarrow> world \<Rightarrow> world" where
  "displayFooter version w =
     (let w1 = console_log (NEWLINE @ rule50) w;
          w2 = console_log (CHECK_MARK @ ''  '' @ version @ '' '' @ EM_DASH @ '' Complete'') w1
      in console_log (rule50 @ NEWLINE) w2)"

definition displayError :: "string \<Rightarrow> js_error \<Rightarrow> world \<Rightarrow> world" where
  "displayError context error w =
     console_error (CROSS_MARK @ ''  Error ['' @ context @ '']: '' @ message error) w"

section \<open>Turns of the event loop and promises\<close>

text \<open>
  An asynchronous operation started now has its events handled in later turns of the event
  loop. An exception that leaves such a turn is caught by nobody.
\<close>

definition later :: "(world \<Rightarrow> js_error option \<times> world) \<Rightarrow> world \<Rightarrow> world" where
  "later turn w =
     (case turn w of
        (None, w1) \<Rightarrow> w1
      | (Some thrown, w1) \<Rightarrow> w1\<lparr>uncaught := uncaught w1 @ [thrown]\<rparr>)"

text \<open>
  A handler that returns nothing fulfils the promise of its \<^verbatim>\<open>then\<close>; one that throws
  rejects it.
\<close>

definition completion :: "js_error option \<times> world \<Rightarrow> unit promise \<times> world" where
  "completion r = (case r of (None, w) \<Rightarrow> (Fulfilled (), w) | (Some thrown, w) \<Rightarrow> (Rejected thrown, w))"

definition then_p :: "'a promise \<Rightarrow> ('a \<Rightarrow> world \<Rightarrow> 'b promise \<times> world) \<Rightarrow> world
    \<Rightarrow> 'b promise \<times> world" where
  "then_p p onFulfilled w =
     (case p of
        Pending \<Rightarrow> (Pending, w)
      | Fulfilled v \<Rightarrow> onFulfilled v w
      | Rejected e \<Rightarrow> (Rejected e, w))"

definition catch_p :: "'a promise \<Rightarrow> (js_error \<Rightarrow> world \<Rightarrow> 'a promise \<times> world) \<Rightarrow> world
    \<Rightarrow> 'a promise \<times> world" where
  "catch_p p onRejected w =
     (case p of
        Pending \<Rightarrow> (Pending, w)
      | Fulfilled v \<Rightarrow> (Fulfilled v, w)
      | Rejected e \<Rightarrow> onRejected e w)"

text \<open>
  Two fetches are in flight together; which of them settles first is not the program's
  choice. The settlements reach a combinator as events, in the order of time: the index
  of the promise in the array and its outcome. A pending promise sends none.
\<close>

datatype order = FirstSettlesFirst | SecondSettlesFirst

fun settlement :: "nat \<Rightarrow> 'a promise \<Rightarrow> (nat \<times> (js_error + 'a)) list" where
  "settlement i Pending = []"
| "settlement i (Fulfilled v) = [(i, Inr v)]"
| "settlement i (Rejected e) = [(i, Inl e)]"

definition settle_order :: "order \<Rightarrow> 'a promise \<Rightarrow> 'a promise \<Rightarrow> (nat \<times> (js_error + 'a)) list" where
  "settle_order ord p0 p1 =
     (case ord of
        FirstSettlesFirst \<Rightarrow> settlement 0 p0 @ settlement 1 p1
      | SecondSettlesFirst \<Rightarrow> settlement 1 p1 @ settlement 0 p0)"

text \<open>
  \<^verbatim>\<open>Promise.all\<close> keeps an array of values and a count of the promises still awaited.
  A fulfilment stores its value at the promise's index and, when it is the last one,
  fulfils the result with the array; a rejection rejects the result. A result that is
  settled stays as it is.
\<close>

record all_state =
  all_values :: "jsval list"
  all_remaining :: nat
  all_result :: "jsval list promise"

definition all_init :: "nat \<Rightarrow> all_state" where
  "all_init n =
     \<lparr>all_values = replicate n None, all_remaining = n,
      all_result = (if n = 0 then Fulfilled [] else Pending)\<rparr>"

fun all_step :: "all_state \<Rightarrow> nat \<times> (js_error + json) \<Rightarrow> all_state" where
  "all_step s (i, Inr v) =
     (let vs = (all_values s)[i := Some v];
          r = all_remaining s - 1
      in \<lparr>all_values = vs, all_remaining = r,
          all_result = (if r = 0 \<and> all_result s = Pending then Fulfilled vs else all_result s)\<rparr>)"
| "all_step s (i, Inl e) =
     s\<lparr>all_result := (if all_result s = Pending then Rejected e else all_result s)\<rparr>"

definition Promise_all :: "nat \<Rightarrow> (nat \<times> (js_error + json)) list \<Rightarrow> jsval list promise" where
  "Promise_all n events = all_result (foldl all_step (all_init n) events)"

text \<open>\<^verbatim>\<open>Promise.race\<close> settles as the first settlement it hears of, and ignores the rest.\<close>

fun race_step :: "json promise \<Rightarrow> nat \<times> (js_error + json) \<Rightarrow> json promise" where
  "race_step Pending (i, Inr v) = Fulfilled v"
| "race_step Pending (i, Inl e) = Rejected e"
| "race_step settled event = settled"

definition Promise_race :: "(nat \<times> (js_error + json)) list \<Rightarrow> json promise" where
  "Promise_race events = foldl race_step Pending events"

text \<open>An element of a destructured array: undefined beyond its end.\<close>

definition element :: "jsval list \<Rightarrow> nat \<Rightarrow> jsval" where
  "element vs i = (if i < length vs then vs ! i else None)"

section \<open>The callback controller (controllers/callbackController)\<close>

definition VERSION_callback :: string where
  "VERSION_callback = ''Callback''"

text \<open>\<^verbatim>\<open>newsData?.articles ?? []\<close>, as every controller writes it.\<close>

definition articles_of :: "jsval \<Rightarrow> json" where
  "articles_of newsData = nullish_or (opt_get newsData ''articles'') (JArray [])"

text \<open>The three nested callbacks, innermost first.\<close>

definition onSecondWeather :: "platform \<Rightarrow> callback" where
  "onSecondWeather P outcome w =
     (case outcome of
        Inl err3 \<Rightarrow> (None, displayError ''Second Weather Fetch'' err3 w)
      | Inr weather2 \<Rightarrow>
          (case displayWeather P (Some weather2) (Some ''Callback - Second Fetch'') w of
             (Some thrown, w1) \<Rightarrow> (Some thrown, w1)
           | (None, w1) \<Rightarrow> (None, displayFooter VERSION_callback w1)))"

definition onNews :: "platform \<Rightarrow> network \<Rightarrow> callback" where
  "onNews P net outcome w =
     (case outcome of
        Inl err2 \<Rightarrow> (None, displayError ''News Fetch'' err2 w)
      | Inr newsData \<Rightarrow>
          (let articles = articles_of (Some newsData)
           in case displayNews P (Some articles) (Some ''Callback'') w of
                (Some thrown, w1) \<Rightarrow> (Some thrown, w1)
              | (None, w1) \<Rightarrow>
                  (None, later (getWeatherCallback P net None None (onSecondWeather P)) w1)))"

definition onWeather :: "platform \<Rightarrow> network \<Rightarrow> callback" where
  "onWeather P net outcome w =
     (case outcome of
        Inl err \<Rightarrow> (None, displayError ''Weather Fetch'' err w)
      | Inr weatherData \<Rightarrow>
          (case displayWeather P (Some weatherData) (Some ''Callback'') w of
             (Some thrown, w1) \<Rightarrow> (Some thrown, w1)
           | (None, w1) \<Rightarrow>
               (None, later (getNewsCallback P net (Some ''us'') (Some 5) (onNews P net)) w1)))"

definition callbackController :: "platform \<Rightarrow> network \<Rightarrow> world \<Rightarrow> world" where
  "callbackController P net w =
     later (getWeatherCallback P net None None (onWeather P net))
       (displayHeader VERSION_callback w)"

section \<open>The promise controller (controllers/promiseController)\<close>

text \<open>
  After the header, the script starts three chains side by side: the sequential chain, the
  chain on \<^verbatim>\<open>Promise.all\<close> and the chain on \<^verbatim>\<open>Promise.race\<close>. Each is modelled on its
  own, from the world it starts in.
\<close>

text \<open>The handlers of the sequential chain, and the chain.\<close>

definition chainOnWeather :: "platform \<Rightarrow> network \<Rightarrow> json \<Rightarrow> world \<Rightarrow> json promise \<times> world" where
  "chainOnWeather P net weatherData w =
     (case displayWeather P (Some weatherData) (Some ''Promise - Sequential'') w of
        (Some thrown, w1) \<Rightarrow> (Rejected thrown, w1)
      | (None, w1) \<Rightarrow> getNewsPromise P net (Some ''us'') (Some 5) w1)"

definition chainOnNews :: "platform \<Rightarrow> json \<Rightarrow> world \<Rightarrow> unit promise \<times> world" where
  "chainOnNews P newsData w =
     (let articles = articles_of (Some newsData)
      in completion (displayNews P (Some articles) (Some ''Promise - Sequential'') w))"

definition chainOnDone :: "unit \<Rightarrow> world \<Rightarrow> unit promise \<times> world" where
  "chainOnDone u w =
     (Fulfilled (), console_log (NEWLINE @ CHECK_MARK @ ''  Sequential promise chain complete.'') w)"

definition sequentialChain :: "platform \<Rightarrow> network \<Rightarrow> world \<Rightarrow> unit promise \<times> world" where
  "sequentialChain P net w =
     (let (p1, w1) = getWeatherPromise P net None None w;
          (p2, w2) = then_p p1 (chainOnWeather P net) w1;
          (p3, w3) = then_p p2 (chainOnNews P) w2;
          (p4, w4) = then_p p3 chainOnDone w3
      in catch_p p4 (\<lambda>err v. (Fulfilled (), displayError ''Sequential Chain'' err v)) w4)"

definition onAll :: "platform \<Rightarrow> jsval list \<Rightarrow> world \<Rightarrow> unit promise \<times> world" where
  "onAll P results w =
     (let weatherData = element results 0;
          newsData = element results 1;
          w1 = console_log (NEWLINE @ ''--- Promise.all() Results (Parallel Fetch) ---'') w
      in case displayWeather P weatherData (Some ''Promise.all'') w1 of
           (Some thrown, w2) \<Rightarrow> (Rejected thrown, w2)
         | (None, w2) \<Rightarrow>
             completion (displayNews P (Some (articles_of newsData)) (Some ''Promise.all'') w2))"

text \<open>\<^verbatim>\<open>.then(([weatherData, newsData]) => ...).catch(err => displayError("Promise.all", err))\<close>\<close>

definition allHandlers :: "platform \<Rightarrow> jsval list promise \<Rightarrow> world \<Rightarrow> unit promise \<times> world" where
  "allHandlers P p w =
     (let (p2, w1) = then_p p (onAll P) w
      in catch_p p2 (\<lambda>err v. (Fulfilled (), displayError ''Promise.all'' err v)) w1)"

definition promiseAll :: "platform \<Rightarrow> network \<Rightarrow> order \<Rightarrow> world \<Rightarrow> unit promise \<times> world" where
  "promiseAll P net ord w =
     (let (p0, w1) = getWeatherPromise P net None None w;
          (p1, w2) = getNewsPromise P net (Some ''us'') (Some 5) w1
      in allHandlers P (Promise_all 2 (settle_order ord p0 p1)) w2)"

definition onRace :: "platform \<Rightarrow> json \<Rightarrow> world \<Rightarrow> unit promise \<times> world" where
  "onRace P firstResult w =
     (let w1 = console_log (NEWLINE @ ''--- Promise.race() Winner (First Response) ---'') w
      in if truthy (opt_get (Some firstResult) ''current_weather'') then
           (let w2 = console_log (TROPHY @ ''  Weather API responded first!'') w1
            in completion (displayWeather P (Some firstResult) (Some ''Promise.race'') w2))
         else if truthy (opt_get (Some firstResult) ''articles'') then
           (let w2 = console_log (TROPHY @ ''  News API responded first!'') w1
            in completion (displayNews P (get_prop firstResult ''articles'') (Some ''Promise.race'') w2))
         else (Fulfilled (), w1))"

text \<open>\<^verbatim>\<open>.then(firstResult => ...).catch(err => displayError("Promise.race", err))\<close>\<close>

definition raceHandlers :: "platform \<Rightarrow> json promise \<Rightarrow> world \<Rightarrow> unit promise \<times> world" where
  "raceHandlers P p w =
     (let (p2, w1) = then_p p (onRace P) w
      in catch_p p2 (\<lambda>err v. (Fulfilled (), displayError ''Promise.race'' err v)) w1)"

definition promiseRace :: "platform \<Rightarrow> network \<Rightarrow> order \<Rightarrow> world \<Rightarrow> unit promise \<times> world" where
  "promiseRace P net ord w =
     (let (p0, w1) = getWeatherPromise P net None None w;
          (p1, w2) = getNewsPromise P net (Some ''us'') (Some 5) w1
      in raceHandlers P (Promise_race (settle_order ord p0 p1)) w2)"

section \<open>The async/await controller (controllers/asyncController)\<close>

definition VERSION_async :: string where
  "VERSION_async = ''Async/Await''"

text \<open>
  \<^verbatim>\<open>run\<close>: an \<^verbatim>\<open>await\<close> of a rejected promise throws into the enclosing \<^verbatim>\<open>try\<close>; an
  \<^verbatim>\<open>await\<close> of a promise that never settles suspends the function for good, so that
  not even \<^verbatim>\<open>finally\<close> runs. First the nested \<^verbatim>\<open>try\<close> with its \<^verbatim>\<open>catch\<close>, followed
  by the outer \<^verbatim>\<open>finally\<close>.
\<close>

definition additionalFetch :: "platform \<Rightarrow> network \<Rightarrow> world \<Rightarrow> world" where
  "additionalFetch P net w =
     (let (p, w1) = getWeatherPromise P net None None w
      in case p of
           Pending \<Rightarrow> w1
         | Fulfilled additionalWeather \<Rightarrow>
             (case displayWeather P (Some additionalWeather)
                     (Some ''Async/Await - Additional Fetch'') w1 of
                (None, w2) \<Rightarrow> displayFooter VERSION_async w2
              | (Some innerErr, w2) \<Rightarrow>
                  displayFooter VERSION_async
                    (displayError ''Additional Weather Fetch'' innerErr w2))
         | Rejected innerErr \<Rightarrow>
             displayFooter VERSION_async (displayError ''Additional Weather Fetch'' innerErr w1))"

text \<open>The \<^verbatim>\<open>try\<close> block after both results have arrived, with \<^verbatim>\<open>catch\<close> and \<^verbatim>\<open>finally\<close>.\<close>

definition afterBoth :: "platform \<Rightarrow> network \<Rightarrow> jsval list \<Rightarrow> world \<Rightarrow> world" where
  "afterBoth P net results w =
     (let weatherData = element results 0;
          newsData = element results 1
      in case displayWeather P weatherData (Some ''Async/Await'') w of
           (Some err, w1) \<Rightarrow>
             displayFooter VERSION_async (displayError ''Async/Await Run'' err w1)
         | (None, w1) \<Rightarrow>
             (let articles = articles_of newsData
              in case displayNews P (Some articles) (Some ''Async/Await'') w1 of
                   (Some err, w2) \<Rightarrow>
                     displayFooter VERSION_async (displayError ''Async/Await Run'' err w2)
                 | (None, w2) \<Rightarrow> additionalFetch P net w2))"

definition run :: "platform \<Rightarrow> network \<Rightarrow> order \<Rightarrow> world \<Rightarrow> world" where
  "run P net ord w =
     (let w0 = displayHeader VERSION_async w;
          (p0, w1) = getWeatherPromise P net None None w0;
          (p1, w2) = getNewsPromise P net (Some ''us'') (Some 5) w1
      in case Promise_all 2 (settle_order ord p0 p1) of
           Pending \<Rightarrow> w2
         | Rejected err \<Rightarrow> displayFooter VERSION_async (displayError ''Async/Await Run'' err w2)
         | Fulfilled results \<Rightarrow> afterBoth P net results w2)"

section \<open>The flat scripts (callbackVersion, promiseVersion)\<close>

definition legacy_weatherUrl :: "platform \<Rightarrow> string" where
  "legacy_weatherUrl P = buildWeatherUrl P (- 25.7479) 28.2293"

definition legacy_newsUrl :: "platform \<Rightarrow> string" where
  "legacy_newsUrl P =
     urlWithParams P (''https://dummyjson.com'' @ ''/posts'') [(''limit'', numberText P 5)]"

text \<open>
  \<^verbatim>\<open>posts.slice(0, 5).forEach((p, i) => console.log(`${i + 1}. ${p.title}`))\<close> on whatever
  value \<^verbatim>\<open>posts\<close> is.
\<close>

fun forEach_post :: "platform \<Rightarrow> json list \<Rightarrow> nat \<Rightarrow> world \<Rightarrow> js_error option \<times> world" where
  "forEach_post P [] i w = (None, w)"
| "forEach_post P (p # rest) i w =
     (if p = JNull
      then (Some (JsTypeError ''Cannot read properties of null (reading 'title')''), w)
      else (case template P (get_prop p ''title'') of
              Inl thrown \<Rightarrow> (Some thrown, w)
            | Inr title \<Rightarrow>
                forEach_post P rest (i + 1) (console_log (decimal (i + 1) @ ''. '' @ title) w)))"

definition headlines :: "platform \<Rightarrow> json \<Rightarrow> world \<Rightarrow> js_error option \<times> world" where
  "headlines P posts w =
     (case posts of
        JArray xs \<Rightarrow> forEach_post P (take 5 xs) 0 w
      | JString s \<Rightarrow> (Some (JsTypeError ''posts.slice(...).forEach is not a function''), w)
      | JNull \<Rightarrow> (Some (JsTypeError ''Cannot read properties of null (reading 'slice')''), w)
      | JBool b \<Rightarrow> (Some (JsTypeError ''posts.slice is not a function''), w)
      | JNumber x \<Rightarrow> (Some (JsTypeError ''posts.slice is not a function''), w)
      | JObject kvs \<Rightarrow> (Some (JsTypeError ''posts.slice is not a function''), w))"

definition legacy_onSecondWeather :: "platform \<Rightarrow> callback" where
  "legacy_onSecondWeather P outcome w =
     (case outcome of
        Inl err3 \<Rightarrow>
          (None, console_error (''Second weather fetch error (callback): '' @ message err3) w)
      | Inr weather2 \<Rightarrow>
          (let w1 = console_log (''Second weather fetch done (callback). Temp: ''
                      @ log_arg P (opt_get (opt_get (Some weather2) ''current_weather'') ''temperature'')) w
           in (None, console_log ''=== Callback Version Done ==='' w1)))"

definition legacy_onNews :: "platform \<Rightarrow> network \<Rightarrow> callback" where
  "legacy_onNews P net outcome w =
     (case outcome of
        Inl err2 \<Rightarrow> (None, console_error (''News error (callback): '' @ message err2) w)
      | Inr newsData \<Rightarrow>
          (let posts = nullish_or (opt_get (Some newsData) ''posts'') (JArray []);
               w1 = console_log ''News (callback) received. Top headlines:'' w
           in case headlines P posts w1 of
                (Some thrown, w2) \<Rightarrow> (Some thrown, w2)
              | (None, w2) \<Rightarrow>
                  (None, later (httpsGetJson P net (legacy_weatherUrl P) (legacy_onSecondWeather P)) w2)))"

definition legacy_onWeather :: "platform \<Rightarrow> network \<Rightarrow> callback" where
  "legacy_onWeather P net outcome w =
     (case outcome of
        Inl err \<Rightarrow> (None, console_error (''Weather error (callback): '' @ message err) w)
      | Inr weatherData \<Rightarrow>
          (let w1 = console_log (''Weather (callback) received, temperature: ''
                      @ log_arg P (opt_get (opt_get (Some weatherData) ''current_weather'') ''temperature'')) w
           in (None, later (httpsGetJson P net (legacy_newsUrl P) (legacy_onNews P net)) w1)))"

definition callbackVersion :: "platform \<Rightarrow> network \<Rightarrow> world \<Rightarrow> world" where
  "callbackVersion P net w =
     later (httpsGetJson P net (legacy_weatherUrl P) (legacy_onWeather P net))
       (console_log ''=== Callback Version ==='' w)"

text \<open>
  \<^verbatim>\<open>first.posts[0]\<close> on a truthy value. The first element of a string is its first
  code unit; the program only reads \<^verbatim>\<open>title\<close> of it, which no string has.
\<close>

fun index0 :: "json \<Rightarrow> jsval" where
  "index0 (JArray xs) = (case xs of [] \<Rightarrow> None | x # rest \<Rightarrow> Some x)"
| "index0 (JObject kvs) = map_of kvs ''0''"
| "index0 (JString s) = (case s of [] \<Rightarrow> None | c # rest \<Rightarrow> Some (JString [c]))"
| "index0 v = None"

definition legacy_onRace :: "platform \<Rightarrow> json \<Rightarrow> world \<Rightarrow> unit promise \<times> world" where
  "legacy_onRace P first w =
     (let w1 = console_log ''--- Promise.race winner (first resolved) ---'' w
      in case if_truthy (opt_get (Some first) ''current_weather'') of
           Some current \<Rightarrow>
             (Fulfilled (),
              console_log (''Winner is weather. Temp: ''
                @ log_arg P (get_prop current ''temperature'')) w1)
         | None \<Rightarrow>
             (case if_truthy (opt_get (Some first) ''posts'') of
                Some posts \<Rightarrow>
                  (Fulfilled (),
                   console_log (''Winner is news. First headline: ''
                     @ log_arg P (opt_get (index0 posts) ''title'')) w1)
              | None \<Rightarrow> (Fulfilled (), console_log (''Race winner: '' @ log_arg P (Some first)) w1)))"

definition legacy_raceHandlers :: "platform \<Rightarrow> json promise \<Rightarrow> world \<Rightarrow> unit promise \<times> world" where
  "legacy_raceHandlers P p w =
     (let (p2, w1) = then_p p (legacy_onRace P) w
      in catch_p p2
           (\<lambda>err v. (Fulfilled (), console_error (''Promise.race error: '' @ message err) v)) w1)"

definition legacy_promiseRace :: "platform \<Rightarrow> network \<Rightarrow> order \<Rightarrow> world
    \<Rightarrow> unit promise \<times> world" where
  "legacy_promiseRace P net ord w =
     (let (p0, w1) = httpsGetJsonPromise P net (legacy_weatherUrl P) w;
          (p1, w2) = httpsGetJsonPromise P net (legacy_newsUrl P) w1
      in legacy_raceHandlers P (Promise_race (settle_order ord p0 p1)) w2)"

section \<open>A platform and a network to run the program on\<close>

text \<open>
  A stand-in for the runtime that knows the documents of the examples: it parses exactly
  these bodies and refuses every other text, and prints the numbers they hold.
\<close>

definition weather_doc :: json where
  "weather_doc =
     JObject [(''current_weather'',
       JObject [(''temperature'', JNumber 22), (''windspeed'', JNumber 8.3)])]"

definition news_doc :: json where
  "news_doc =
     JObject [(''articles'',
       JArray [JObject [(''title'', JString ''X'')], JObject [(''title'', JString ''Y'')]])]"

definition status_doc :: json where
  "status_doc = JObject [(''status'', JString ''ok'')]"

definition null_article_doc :: json where
  "null_article_doc = JObject [(''articles'', JArray [JNull])]"

definition weather_body :: string where
  \<open>weather_body = ''{"current_weather":{"temperature":22,"windspeed":8.3}}''\<close>

definition news_body :: string where
  \<open>news_body = ''{"articles":[{"title":"X"},{"title":"Y"}]}''\<close>

definition status_body :: string where
  \<open>status_body = ''{"status":"ok"}''\<close>

definition null_article_body :: string where
  \<open>null_article_body = ''{"articles":[null]}''\<close>

definition documents :: "(string \<times> json) list" where
  "documents =
     [(weather_body, weather_doc),
      (news_body, news_doc),
      (status_body, status_doc),
      (null_article_body, null_article_doc)]"

fun number_text :: "real \<Rightarrow> string" where
  "number_text x =
     (if x = 22 then ''22'' else if x = 8.3 then ''8.3'' else if x = 5 then ''5''
      else if x = - 25.7479 then ''-25.7479'' else if x = 28.2293 then ''28.2293''
      else ''NaN'')"

fun demo_text :: "json \<Rightarrow> string" where
  "demo_text JNull = ''null''"
| "demo_text (JBool b) = (if b then ''true'' else ''false'')"
| "demo_text (JNumber x) = number_text x"
| "demo_text (JString s) = s"
| "demo_text (JArray xs) = ''[...]''"
| "demo_text (JObject kvs) = ''{...}''"

fun demo_number :: "string \<Rightarrow> real option" where
  "demo_number s = (if s = ''5'' then Some 5 else if s = ''22'' then Some 22 else None)"

fun query :: "(string \<times> string) list \<Rightarrow> string" where
  "query [] = []"
| "query [(k, v)] = k @ ''='' @ v"
| "query ((k, v) # rest) = k @ ''='' @ v @ ''&'' @ query rest"

definition demo :: platform where
  "demo =
     \<lparr>JSON_parse = (\<lambda>s. case map_of documents s of
                          None \<Rightarrow> Inl (JsSyntaxError ''Unexpected end of JSON input'')
                        | Some v \<Rightarrow> Inr v),
      numberText = number_text, inspect = demo_text, stringToNumber = demo_number,
      urlWithParams = (\<lambda>base params. base @ ''?'' @ query params),
      NEWS_API_KEY = ''key-of-the-example''\<rparr>"

text \<open>A network that answers the requests of a run in turn, and refuses any further one.\<close>

definition scripted :: "reply list \<Rightarrow> network" where
  "scripted replies n rq =
     (if n < length replies then replies ! n else NetworkError (JsError ''connect ECONNREFUSED''))"

definition start :: world where
  "start = \<lparr>requests = [], console = [], uncaught = []\<rparr>"

section \<open>Evaluation and basic facts\<close>

lemmas view_defs = displayHeader_def displayFooter_def displayWeather_def displayNews_def
  displayError_def console_log_def console_error_def label_prefix_def weather_unavailable_def
  no_articles_def length_positive_def if_truthy_def template_def log_arg_def ToNumber_def
  not_primitive_def

lemmas client_defs = httpGetJson_def httpGetJsonPromise_def settle_def https_get_def
  reqOptions_def spread_def call_def http_error_def complete_def
  httpsGetJson_def httpsGetJsonPromise_def https_settle_def legacy_error_def

lemmas model_defs = getWeatherCallback_def getWeatherPromise_def getNewsCallback_def
  getNewsPromise_def weatherUrl_def newsUrl_def buildWeatherUrl_def buildNewsUrl_def
  getNewsHeaders_def legacy_weatherUrl_def legacy_newsUrl_def

lemmas demo_defs = demo_def documents_def weather_doc_def news_doc_def status_doc_def
  null_article_doc_def weather_body_def news_body_def status_body_def null_article_body_def
  scripted_def start_def

lemmas flow_defs = later_def completion_def then_p_def catch_p_def settle_order_def
  Promise_all_def Promise_race_def all_init_def element_def articles_of_def

lemma decimal_404: "decimal 404 = ''404''"
  by (simp add: decimal.simps)

lemma receive_chunks: "receive raw (map Data chunks @ End # es) = Some (raw @ concat chunks)"
  by (induction chunks arbitrary: raw) simp_all

lemma receive_unfinished: "receive raw (map Data chunks) = None"
  by (induction chunks arbitrary: raw) simp_all

lemma complete_receive: "receive [] (map Data chunks @ [End]) = Some (concat chunks)"
  using receive_chunks [of "[]" chunks "[]"] by simp

lemma map_of_fold_update:
  "map_of (fold (\<lambda>(k, v) obj. AList.update k v obj) kvs base) = map_of base ++ map_of (rev kvs)"
proof (induction kvs arbitrary: base)
  case Nil
  show ?case by simp
next
  case (Cons kv kvs)
  obtain k v where kv: "kv = (k, v)" by (cases kv)
  have "map_of (fold (\<lambda>(k, v) obj. AList.update k v obj) (kv # kvs) base)
      = map_of (AList.update k v base) ++ map_of (rev kvs)"
    using Cons.IH [of "AList.update k v base"] by (simp add: kv)
  also have "\<dots> = map_of base ++ map_of (rev (kv # kvs))"
    by (simp add: kv update_conv' map_add_def fun_eq_iff split: option.splits)
  finally show ?case .
qed

lemma map_of_spread:
  "map_of (spread base extra)
     = map_of base ++ (case extra of None \<Rightarrow> Map.empty | Some kvs \<Rightarrow> map_of (rev kvs))"
  by (cases extra) (simp_all add: spread_def map_of_fold_update)

lemma sublist_http_error_code:
  "sublist (decimal code) (message (http_error (Some code) body))"
proof -
  have "message (http_error (Some code) body)
      = ''HTTP request failed with status '' @ decimal code @ ('': '' @ body)"
    by (simp add: http_error_def)
  then show ?thesis by (simp only: sublist_appendI)
qed

lemma sublist_http_error_body: "sublist body (message (http_error statusCode body))"
proof -
  have "message (http_error statusCode body)
      = (''HTTP request failed with status '' @ status_text statusCode @ '': '') @ body"
    by (simp add: http_error_def)
  then show ?thesis by (simp only: sublist_append_leftI)
qed

text \<open>
  The callback client hands its callback what the promise client settles with; after a
  success it hands over a second time, when the callback threw.
\<close>

lemma httpGetJson_settle:
  "httpGetJson P net url options callback w =
     (let requestOptions = (case options of Inl f \<Rightarrow> \<lparr>opt_headers = None\<rparr> | Inr opts \<Rightarrow> opts);
          cb = (case options of Inl f \<Rightarrow> Some f | Inr opts \<Rightarrow> callback);
          rq = reqOptions url requestOptions;
          w1 = w\<lparr>requests := requests w @ [rq]\<rparr>
      in case settle P (net (length (requests w)) rq) of
           Pending \<Rightarrow> (None, w1)
         | Rejected e \<Rightarrow> call cb (Inl e) w1
         | Fulfilled v \<Rightarrow>
             (case call cb (Inr v) w1 of
                (None, w2) \<Rightarrow> (None, w2)
              | (Some thrown, w2) \<Rightarrow> call cb (Inl thrown) w2))"
  by (simp add: httpGetJson_def settle_def https_get_def Let_def
      split: reply.splits option.splits sum.splits)

lemma httpsGetJson_settle:
  "httpsGetJson P net url callback w =
     (let rq = \<lparr>target = url, http_method = ''GET'', headers = []\<rparr>;
          w1 = w\<lparr>requests := requests w @ [rq]\<rparr>
      in case https_settle P (net (length (requests w)) rq) of
           Pending \<Rightarrow> (None, w1)
         | Rejected e \<Rightarrow> callback (Inl e) w1
         | Fulfilled v \<Rightarrow>
             (case callback (Inr v) w1 of
                (None, w2) \<Rightarrow> (None, w2)
              | (Some thrown, w2) \<Rightarrow> callback (Inl thrown) w2))"
  by (simp add: httpsGetJson_def https_settle_def https_get_def Let_def
      split: reply.splits option.splits sum.splits)

lemma settle_complete_error:
  "400 \<le> code \<Longrightarrow>
   settle P (complete (Some code) chunks) = Rejected (http_error (Some code) (concat chunks))"
  by (simp add: settle_def complete_def complete_receive)

lemma https_settle_error:
  "400 \<le> code \<Longrightarrow>
   https_settle P (Response (Some code) events) = Rejected (legacy_error (Some code))"
  by (simp add: https_settle_def)

lemma settle_complete_ok:
  "\<not> is_error_status statusCode \<Longrightarrow>
   settle P (complete statusCode chunks) =
     (case JSON_parse P (concat chunks) of Inl e \<Rightarrow> Rejected e | Inr v \<Rightarrow> Fulfilled v)"
  by (simp add: settle_def complete_def complete_receive)

lemma settle_unfinished: "settle P (Response statusCode (map Data chunks)) = Pending"
  by (simp add: settle_def receive_unfinished)

lemma weather_promise:
  "getWeatherPromise P net None None w =
     (settle P (net (length (requests w)) (reqOptions (weatherUrl P None None) \<lparr>opt_headers = None\<rparr>)),
      w\<lparr>requests := requests w @ [reqOptions (weatherUrl P None None) \<lparr>opt_headers = None\<rparr>]\<rparr>)"
  by (simp add: getWeatherPromise_def httpGetJsonPromise_def https_get_def Let_def)

lemma news_promise:
  "getNewsPromise P net country pageSize w =
     (settle P (net (length (requests w))
        (reqOptions (newsUrl P country pageSize) \<lparr>opt_headers = Some (getNewsHeaders P)\<rparr>)),
      w\<lparr>requests := requests w
         @ [reqOptions (newsUrl P country pageSize) \<lparr>opt_headers = Some (getNewsHeaders P)\<rparr>]\<rparr>)"
  by (simp add: getNewsPromise_def httpGetJsonPromise_def https_get_def Let_def)

section \<open>The fetch primitive on an error status\<close>

text \<open>
  Claim C1, as amended. For a complete response with a status code of 400 or more, the
  HTTP client of the controllers fails once the body has ended: \<open>httpGetJson\<close> calls back
  with, and \<open>httpGetJsonPromise\<close> rejects with, an error whose message holds the decimal
  status code and the whole body, all chunks concatenated. The fetch function of the flat
  scripts fails as soon as the response starts, whatever the body: its message holds the
  status code and nothing of the body.
\<close>

theorem error_status_failure:
  assumes "400 \<le> code"
    and "net (length (requests w)) (reqOptions url opts) = complete (Some code) chunks"
    and "net' (length (requests w)) \<lparr>target = url, http_method = ''GET'', headers = []\<rparr>
           = Response (Some code) events"
  shows "httpGetJson P net url (Inr opts) (Some cb) w
           = cb (Inl (http_error (Some code) (concat chunks)))
                (w\<lparr>requests := requests w @ [reqOptions url opts]\<rparr>)
       \<and> fst (httpGetJsonPromise P net url (Some opts) w)
           = Rejected (http_error (Some code) (concat chunks))
       \<and> sublist (decimal code) (message (http_error (Some code) (concat chunks)))
       \<and> sublist (concat chunks) (message (http_error (Some code) (concat chunks)))
       \<and> httpsGetJson P net' url cb' w
           = cb' (Inl (legacy_error (Some code)))
                 (w\<lparr>requests := requests w @ [\<lparr>target = url, http_method = ''GET'', headers = []\<rparr>]\<rparr>)
       \<and> message (legacy_error (Some code)) = ''Request failed. Status code: '' @ decimal code"
proof -
  have rejected: "settle P (net (length (requests w)) (reqOptions url opts))
      = Rejected (http_error (Some code) (concat chunks))"
    using assms(1,2) by (simp add: settle_complete_error)
  have callback: "httpGetJson P net url (Inr opts) (Some cb) w
      = cb (Inl (http_error (Some code) (concat chunks)))
           (w\<lparr>requests := requests w @ [reqOptions url opts]\<rparr>)"
    by (simp add: httpGetJson_settle rejected call_def)
  have promise: "fst (httpGetJsonPromise P net url (Some opts) w)
      = Rejected (http_error (Some code) (concat chunks))"
    using rejected by (simp add: httpGetJsonPromise_def https_get_def)
  have legacy: "httpsGetJson P net' url cb' w
      = cb' (Inl (legacy_error (Some code)))
            (w\<lparr>requests := requests w @ [\<lparr>target = url, http_method = ''GET'', headers = []\<rparr>]\<rparr>)"
    using assms(1,3) by (simp add: httpsGetJson_settle https_settle_error)
  have wording: "message (legacy_error (Some code)) = ''Request failed. Status code: '' @ decimal code"
    by (simp add: legacy_error_def)
  show ?thesis
    using callback promise legacy wording sublist_http_error_code sublist_http_error_body
    by blast
qed

theorem error_status_failure_witness:
  "(400::nat) \<le> 404
   \<and> scripted [complete (Some 404) [''Not '', ''Found'']] (length (requests start))
        (reqOptions ''https://example.org/'' \<lparr>opt_headers = None\<rparr>)
       = complete (Some 404) [''Not '', ''Found'']
   \<and> fst (httpGetJsonPromise demo (scripted [complete (Some 404) [''Not '', ''Found'']])
        ''https://example.org/'' (Some \<lparr>opt_headers = None\<rparr>) start)
       = Rejected (JsError ''HTTP request failed with status 404: Not Found'')
   \<and> message (legacy_error (Some 404)) = ''Request failed. Status code: 404''"
proof -
  have h1: "(400::nat) \<le> 404" by simp
  have h2: "scripted [complete (Some 404) [''Not '', ''Found'']] (length (requests start))
        (reqOptions ''https://example.org/'' \<lparr>opt_headers = None\<rparr>)
       = complete (Some 404) [''Not '', ''Found'']"
    by (simp add: scripted_def start_def)
  have h3: "scripted [Response (Some 404) [Data ''Not '']] (length (requests start))
        \<lparr>target = ''https://example.org/'', http_method = ''GET'', headers = []\<rparr>
       = Response (Some 404) [Data ''Not '']"
    by (simp add: scripted_def start_def)
  show ?thesis
    using h2
      error_status_failure [where code = 404 and w = start and url = "''https://example.org/''"
        and net = "scripted [complete (Some 404) [''Not '', ''Found'']]"
        and opts = "\<lparr>opt_headers = None\<rparr>" and chunks = "[''Not '', ''Found'']"
        and net' = "scripted [Response (Some 404) [Data ''Not '']]" and events = "[Data ''Not '']"
        and P = demo and cb = "onWeather demo (scripted [])"
        and cb' = "legacy_onWeather demo (scripted [])", OF h1 h2 h3]
    by (simp add: http_error_def decimal_404)
qed

text \<open>
  The claim as stated fails on the flat script: a 404 whose body arrives in two chunks
  is reported with the status code alone.
\<close>

theorem legacy_failure_without_body:
  "console (snd (httpsGetJson demo (scripted [complete (Some 404) [''Not '', ''Found'']])
       (legacy_weatherUrl demo) (legacy_onWeather demo (scripted [])) start))
     = [Err ''Weather error (callback): Request failed. Status code: 404'']
   \<and> \<not> sublist ''Not Found'' ''Weather error (callback): Request failed. Status code: 404''"
  by (simp add: client_defs demo_defs legacy_onWeather_def view_defs decimal_404 Let_def
      sublist_Cons_right)

section \<open>The headers the client sends\<close>

text \<open>
  Claim C7, as amended. The caller's headers are spread over the fixed \<^verbatim>\<open>User-Agent\<close>
  entry: every key the caller supplies is sent with the caller's value, and the fixed
  \<^verbatim>\<open>User-Agent\<close> value is sent exactly when the caller supplies no \<^verbatim>\<open>User-Agent\<close> key
  of its own. No other key is sent.
\<close>

theorem caller_headers_merged:
  "map_of (headers (reqOptions url \<lparr>opt_headers = Some kvs\<rparr>)) k
     = (case map_of (rev kvs) k of
          Some v \<Rightarrow> Some v
        | None \<Rightarrow> if k = ''User-Agent'' then Some USER_AGENT else None)
   \<and> requests (snd (httpGetJsonPromise P net url (Some \<lparr>opt_headers = Some kvs\<rparr>) w))
        = requests w @ [reqOptions url \<lparr>opt_headers = Some kvs\<rparr>]"
proof -
  have "map_of (headers (reqOptions url \<lparr>opt_headers = Some kvs\<rparr>))
      = [''User-Agent'' \<mapsto> USER_AGENT] ++ map_of (rev kvs)"
    by (simp add: reqOptions_def map_of_spread)
  then have merged: "map_of (headers (reqOptions url \<lparr>opt_headers = Some kvs\<rparr>)) k
     = (case map_of (rev kvs) k of
          Some v \<Rightarrow> Some v
        | None \<Rightarrow> if k = ''User-Agent'' then Some USER_AGENT else None)"
    by (simp add: map_add_def split: option.splits)
  have "requests (snd (httpGetJsonPromise P net url (Some \<lparr>opt_headers = Some kvs\<rparr>) w))
        = requests w @ [reqOptions url \<lparr>opt_headers = Some kvs\<rparr>]"
    by (simp add: httpGetJsonPromise_def https_get_def Let_def)
  with merged show ?thesis by simp
qed

text \<open>
  The claim as stated fails: a caller that supplies \<^verbatim>\<open>User-Agent\<close> replaces the fixed
  value in the request that is sent.
\<close>

theorem caller_replaces_user_agent:
  "map (\<lambda>rq. map_of (headers rq) ''User-Agent'')
       (requests (snd (httpGetJsonPromise demo (scripted []) ''https://newsapi.org/v2/top-headlines''
          (Some \<lparr>opt_headers = Some [(''User-Agent'', ''curl/8.0'')]\<rparr>) start)))
     = [Some ''curl/8.0'']
   \<and> Some ''curl/8.0'' \<noteq> Some USER_AGENT"
  by (simp add: httpGetJsonPromise_def https_get_def reqOptions_def spread_def start_def
      USER_AGENT_def)

section \<open>The sequential orchestrators\<close>

lemma requests_displayHeader [simp]: "requests (displayHeader v w) = requests w"
  by (simp add: displayHeader_def console_log_def Let_def)

lemma uncaught_displayHeader [simp]: "uncaught (displayHeader v w) = uncaught w"
  by (simp add: displayHeader_def console_log_def Let_def)

lemma weather_getter:
  "getWeatherCallback P net None None cb w =
     (case settle P (net (length (requests w)) (reqOptions (weatherUrl P None None) \<lparr>opt_headers = None\<rparr>)) of
        Pending \<Rightarrow> (None, w\<lparr>requests := requests w @ [reqOptions (weatherUrl P None None) \<lparr>opt_headers = None\<rparr>]\<rparr>)
      | Rejected e \<Rightarrow> cb (Inl e) (w\<lparr>requests := requests w @ [reqOptions (weatherUrl P None None) \<lparr>opt_headers = None\<rparr>]\<rparr>)
      | Fulfilled v \<Rightarrow>
          (case cb (Inr v) (w\<lparr>requests := requests w @ [reqOptions (weatherUrl P None None) \<lparr>opt_headers = None\<rparr>]\<rparr>) of
             (None, w2) \<Rightarrow> (None, w2)
           | (Some thrown, w2) \<Rightarrow> cb (Inl thrown) w2))"
  by (simp add: getWeatherCallback_def httpGetJson_settle call_def Let_def
      split: promise.splits prod.splits option.splits)

lemma sequentialChain_first_failure:
  assumes "settle P (net (length (requests w)) (reqOptions (weatherUrl P None None) \<lparr>opt_headers = None\<rparr>))
             = Rejected e"
  shows "sequentialChain P net w
           = (Fulfilled (), displayError ''Sequential Chain'' e
                (w\<lparr>requests := requests w @ [reqOptions (weatherUrl P None None) \<lparr>opt_headers = None\<rparr>]\<rparr>))"
  using assms by (simp add: sequentialChain_def weather_promise then_p_def catch_p_def)

text \<open>
  Claim C3. When the first weather fetch of a sequential run fails (transport error, error
  status or unparsable body), exactly one request has been sent, the weather request:
  neither the news fetch nor the second weather fetch is started. The console holds what
  was printed before the fetch and then the one error line of the first stage. This holds
  for the callback controller, for the flat callback script and for the sequential chain of
  the promise controller.
\<close>

theorem first_stage_failure_stops:
  fixes P :: platform and net net' :: network and w :: world
  defines "rqW \<equiv> reqOptions (weatherUrl P None None) \<lparr>opt_headers = None\<rparr>"
    and "rqL \<equiv> \<lparr>target = legacy_weatherUrl P, http_method = ''GET'', headers = []\<rparr>"
  assumes "settle P (net (length (requests w)) rqW) = Rejected e"
    and "https_settle P (net' (length (requests w)) rqL) = Rejected e'"
  shows "requests (callbackController P net w) = requests w @ [rqW]
       \<and> console (callbackController P net w)
           = console (displayHeader VERSION_callback w)
             @ [Err (CROSS_MARK @ ''  Error [Weather Fetch]: '' @ message e)]
       \<and> uncaught (callbackController P net w) = uncaught w
       \<and> requests (callbackVersion P net' w) = requests w @ [rqL]
       \<and> console (callbackVersion P net' w)
           = console w @ [Out ''=== Callback Version ==='',
                          Err (''Weather error (callback): '' @ message e')]
       \<and> uncaught (callbackVersion P net' w) = uncaught w
       \<and> requests (snd (sequentialChain P net w)) = requests w @ [rqW]
       \<and> console (snd (sequentialChain P net w))
           = console w @ [Err (CROSS_MARK @ ''  Error [Sequential Chain]: '' @ message e)]"
proof -
  have mvc: "callbackController P net w
      = displayError ''Weather Fetch'' e
          ((displayHeader VERSION_callback w)\<lparr>requests := requests w @ [rqW]\<rparr>)"
    using assms(3)
    by (simp add: callbackController_def weather_getter rqW_def onWeather_def later_def)
  have flat: "callbackVersion P net' w
      = console_error (''Weather error (callback): '' @ message e')
          ((console_log ''=== Callback Version ==='' w)\<lparr>requests := requests w @ [rqL]\<rparr>)"
    using assms(4)
    by (simp add: callbackVersion_def httpsGetJson_settle rqL_def legacy_onWeather_def later_def
        console_log_def Let_def)
  have chain: "sequentialChain P net w
      = (Fulfilled (), displayError ''Sequential Chain'' e (w\<lparr>requests := requests w @ [rqW]\<rparr>))"
    using assms(3) unfolding rqW_def by (rule sequentialChain_first_failure)
  show ?thesis
    by (simp add: mvc flat chain displayError_def console_error_def console_log_def)
qed


theorem first_stage_failure_stops_witness:
  "settle demo (scripted [complete (Some 500) [''down'']] (length (requests start))
       (reqOptions (weatherUrl demo None None) \<lparr>opt_headers = None\<rparr>))
     = Rejected (JsError ''HTTP request failed with status 500: down'')
   \<and> https_settle demo (scripted [complete (Some 500) [''down'']] (length (requests start))
       \<lparr>target = legacy_weatherUrl demo, http_method = ''GET'', headers = []\<rparr>)
     = Rejected (JsError ''Request failed. Status code: 500'')
   \<and> length (requests (callbackController demo (scripted [complete (Some 500) [''down'']]) start)) = 1
   \<and> console (callbackVersion demo (scripted [complete (Some 500) [''down'']]) start)
       = [Out ''=== Callback Version ==='',
          Err ''Weather error (callback): Request failed. Status code: 500'']"
proof -
  have h1: "settle demo (scripted [complete (Some 500) [''down'']] (length (requests start))
       (reqOptions (weatherUrl demo None None) \<lparr>opt_headers = None\<rparr>))
     = Rejected (JsError ''HTTP request failed with status 500: down'')"
    by (simp add: client_defs demo_defs decimal.simps)
  have h2: "https_settle demo (scripted [complete (Some 500) [''down'']] (length (requests start))
       \<lparr>target = legacy_weatherUrl demo, http_method = ''GET'', headers = []\<rparr>)
     = Rejected (JsError ''Request failed. Status code: 500'')"
    by (simp add: client_defs demo_defs decimal.simps)
  show ?thesis
    using h1 h2
      first_stage_failure_stops [where P = demo and w = start
        and net = "scripted [complete (Some 500) [''down'']]"
        and net' = "scripted [complete (Some 500) [''down'']]"
        and e = "JsError ''HTTP request failed with status 500: down''"
        and e' = "JsError ''Request failed. Status code: 500''", OF h1 h2]
    by (simp add: start_def)
qed


section \<open>The view\<close>

lemma displayNews_empty:
  "displayNews P (Some (JArray [])) label w = (None, console_log (no_articles (label_prefix label)) w)"
  by (simp add: displayNews_def length_positive_def)

lemma forEach_article_completes:
  "(fst (forEach_article P xs i w) = None)
     = list_all (\<lambda>article. article \<noteq> JNull \<and> converts P (get_prop article ''title'')) xs"
  by (induction xs arbitrary: i w) (auto simp: converts_def split: sum.splits)

lemma displayNews_completes:
  "(fst (displayNews P (Some (JArray xs)) label w) = None)
     = list_all (\<lambda>article. article \<noteq> JNull \<and> converts P (get_prop article ''title'')) xs"
proof (cases xs)
  case Nil
  then show ?thesis by (simp add: displayNews_empty)
next
  case (Cons x rest)
  have "displayNews P (Some (JArray xs)) label w
      = forEach_article P xs 0
          (console_log (NEWLINE @ label_prefix label @ NEWSPAPER @ ''  Top News Headlines:'') w)"
    by (simp add: displayNews_def length_positive_def Cons Let_def del: forEach_article.simps)
  then show ?thesis by (simp only: forEach_article_completes)
qed

lemma displayWeather_unavailable:
  "\<not> truthy (opt_get data ''current_weather'') \<Longrightarrow>
   displayWeather P data label w
     = (None, console_log (weather_unavailable (label_prefix label)) w)"
  by (simp add: displayWeather_def if_truthy_def)

lemma displayWeather_completes:
  "(fst (displayWeather P data label w) = None)
     = (case if_truthy (opt_get data ''current_weather'') of
          None \<Rightarrow> True
        | Some current \<Rightarrow>
            converts P (get_prop current ''temperature'')
            \<and> converts P (get_prop current ''windspeed''))"
  by (simp add: displayWeather_def converts_def Let_def split: option.splits sum.splits)

lemma converts_primitives:
  "converts P None" "converts P (Some JNull)" "converts P (Some (JBool b))"
  "converts P (Some (JNumber x))" "converts P (Some (JString s))"
  by (simp_all add: converts_def template_def)

lemma converts_own_toString: "\<not> converts P (Some (JObject [(''toString'', v)]))"
  by (simp add: converts_def template_def)

lemma articles_of_missing:
  "opt_get newsData ''articles'' = None \<Longrightarrow> articles_of newsData = JArray []"
  by (simp add: articles_of_def)

text \<open>
  Claim C9, as amended. \<open>displayNews\<close> prints the notice "No news articles available."
  for an empty array, and \<open>displayWeather\<close> prints the notice "Weather data unavailable."
  when \<^verbatim>\<open>current_weather\<close> is missing; neither throws there. The display functions are
  not safe on every input. On an array, \<open>displayNews\<close> completes exactly when no element
  is null and every title can be converted to a string; \<open>displayWeather\<close> completes
  exactly when \<^verbatim>\<open>current_weather\<close> is falsy or its \<^verbatim>\<open>temperature\<close> and \<^verbatim>\<open>windspeed\<close>
  can both be converted. A missing value, null, a boolean, a number and a string can be
  converted, which covers the payloads of the declared types (titles that are strings,
  measurements that are numbers); an object with a \<^verbatim>\<open>toString\<close> property of its own
  cannot.
\<close>

theorem display_defensive:
  "displayNews P (Some (JArray [])) label w
     = (None, console_log (label_prefix label @ WARNING_SIGN @ ''  No news articles available.'') w)
   \<and> (opt_get data ''current_weather'' = None \<longrightarrow>
        displayWeather P data label w
          = (None, console_log (label_prefix label @ WARNING_SIGN @ ''  Weather data unavailable.'') w))
   \<and> (fst (displayNews P (Some (JArray xs)) label w) = None)
        = list_all (\<lambda>article. article \<noteq> JNull \<and> converts P (get_prop article ''title'')) xs
   \<and> (fst (displayWeather P data label w) = None)
        = (case if_truthy (opt_get data ''current_weather'') of
             None \<Rightarrow> True
           | Some current \<Rightarrow>
               converts P (get_prop current ''temperature'')
               \<and> converts P (get_prop current ''windspeed''))
   \<and> converts P None \<and> converts P (Some JNull) \<and> converts P (Some (JBool b))
   \<and> converts P (Some (JNumber x)) \<and> converts P (Some (JString s))
   \<and> \<not> converts P (Some (JObject [(''toString'', v)]))"
proof -
  have news: "displayNews P (Some (JArray [])) label w
     = (None, console_log (label_prefix label @ WARNING_SIGN @ ''  No news articles available.'') w)"
    by (simp add: displayNews_empty no_articles_def)
  have weather: "displayWeather P data label w
          = (None, console_log (label_prefix label @ WARNING_SIGN @ ''  Weather data unavailable.'') w)"
    if "opt_get data ''current_weather'' = None"
    using that by (simp add: displayWeather_unavailable weather_unavailable_def)
  show ?thesis
    using news weather displayNews_completes [of P xs label w]
      displayWeather_completes [of P data label w]
      converts_primitives [of P] converts_own_toString [of P v]
    by blast
qed

theorem display_defensive_witness:
  "opt_get (Some status_doc) ''current_weather'' = None
   \<and> fst (displayNews demo (Some (JArray [JObject [(''title'', JString ''X'')]])) (Some ''Callback'') start) = None
   \<and> console (snd (displayWeather demo (Some status_doc) (Some ''Callback'') start))
       = [Out (''[Callback] '' @ WARNING_SIGN @ ''  Weather data unavailable.'')]
   \<and> console (snd (displayNews demo (Some (JArray [])) (Some ''Callback'') start))
       = [Out (''[Callback] '' @ WARNING_SIGN @ ''  No news articles available.'')]"
proof -
  have h: "opt_get (Some status_doc) ''current_weather'' = None"
    by (simp add: status_doc_def)
  show ?thesis
    using h
      display_defensive [where P = demo and label = "Some ''Callback''" and w = start
        and xs = "[JObject [(''title'', JString ''X'')]]" and data = "Some status_doc"
        and s = "''X''"]
    by (simp add: label_prefix_def console_log_def start_def)
qed

text \<open>
  The claim as stated fails, since not every input is safe: an array holding null makes
  \<open>displayNews\<close> throw a TypeError, and so does a temperature that is an object with a
  \<^verbatim>\<open>toString\<close> property in \<open>displayWeather\<close>.
\<close>

theorem displayNews_throws_on_null:
  "fst (displayNews demo (Some (JArray [JNull])) (Some ''Callback'') start)
     = Some (JsTypeError ''Cannot read properties of null (reading 'title')'')
   \<and> fst (displayWeather demo
         (Some (JObject [(''current_weather'',
            JObject [(''temperature'', JObject [(''toString'', JNumber 0)])])]))
         (Some ''Callback'') start)
     = Some (JsTypeError ''Cannot convert object to primitive value'')"
  by (simp add: displayNews_def displayWeather_def length_positive_def if_truthy_def template_def
      not_primitive_def Let_def)

section \<open>The callback client calls back twice when its callback throws\<close>

text \<open>
  On a complete response with a status below 400 the client parses the whole body. A
  parse error is handed to the callback once, and so is the parsed data when the callback
  returns normally; nothing is handed over before \<^verbatim>\<open>end\<close>. When the callback throws
  on the data, it is called a second time with what it threw. The promise client settles
  once.
\<close>

lemma httpGetJson_once:
  assumes "net (length (requests w)) (reqOptions url opts) = complete statusCode chunks"
    and "\<not> is_error_status statusCode"
    and "JSON_parse P (concat chunks) = Inr parsedData"
    and "cb (Inr parsedData) (w\<lparr>requests := requests w @ [reqOptions url opts]\<rparr>) = (None, w2)"
  shows "httpGetJson P net url (Inr opts) (Some cb) w = (None, w2)"
  using assms by (simp add: httpGetJson_settle settle_complete_ok call_def)

lemma httpGetJson_twice:
  assumes "net (length (requests w)) (reqOptions url opts) = complete statusCode chunks"
    and "\<not> is_error_status statusCode"
    and "JSON_parse P (concat chunks) = Inr parsedData"
    and "cb (Inr parsedData) (w\<lparr>requests := requests w @ [reqOptions url opts]\<rparr>) = (Some thrown, w2)"
  shows "httpGetJson P net url (Inr opts) (Some cb) w = cb (Inl thrown) w2"
  using assms by (simp add: httpGetJson_settle settle_complete_ok call_def)

lemma httpGetJson_parse_error:
  assumes "net (length (requests w)) (reqOptions url opts) = complete statusCode chunks"
    and "\<not> is_error_status statusCode"
    and "JSON_parse P (concat chunks) = Inl parseError"
  shows "httpGetJson P net url (Inr opts) (Some cb) w
           = cb (Inl parseError) (w\<lparr>requests := requests w @ [reqOptions url opts]\<rparr>)"
  using assms by (simp add: httpGetJson_settle settle_complete_ok call_def)

lemma httpGetJson_waits:
  assumes "net (length (requests w)) (reqOptions url opts) = Response statusCode (map Data chunks)"
  shows "httpGetJson P net url (Inr opts) (Some cb) w
           = (None, w\<lparr>requests := requests w @ [reqOptions url opts]\<rparr>)"
  using assms by (simp add: httpGetJson_settle settle_unfinished)

lemma httpGetJsonPromise_settles:
  assumes "net (length (requests w)) (reqOptions url opts) = complete statusCode chunks"
    and "\<not> is_error_status statusCode"
  shows "fst (httpGetJsonPromise P net url (Some opts) w)
           = (case JSON_parse P (concat chunks) of Inl e \<Rightarrow> Rejected e | Inr v \<Rightarrow> Fulfilled v)"
  using assms by (simp add: httpGetJsonPromise_def https_get_def settle_complete_ok Let_def)

text \<open>
  Claim C2 at a failing input. The news endpoint answers 200 with the well-formed body
  \<^verbatim>\<open>{"articles":[null]}\<close>, in two chunks. \<open>httpGetJson\<close> parses it and calls the
  controller's callback with the data; the callback prints the heading and then throws
  inside \<open>displayNews\<close>. The call stands inside the \<^verbatim>\<open>try\<close> block meant for
  \<^verbatim>\<open>JSON.parse\<close>, so the \<^verbatim>\<open>catch\<close> clause calls the same callback again, now with the
  TypeError as if it were a parse error: one fetch has produced a success and then a failure.
\<close>

theorem callback_called_twice:
  \<open>console (snd (getNewsCallback demo
       (scripted [complete (Some 200) [''{"articles":'', ''[null]}'']])
       (Some ''us'') (Some 5) (onNews demo (scripted [])) start))
     = [Out (NEWLINE @ ''[Callback] '' @ NEWSPAPER @ ''  Top News Headlines:''),
        Err (CROSS_MARK @ ''  Error [News Fetch]: Cannot read properties of null (reading 'title')'')]\<close>
  by (simp add: client_defs demo_defs model_defs onNews_def view_defs flow_defs Let_def)


section \<open>A news payload without articles\<close>

lemma label_prefix_Some: "l \<noteq> [] \<Longrightarrow> label_prefix (Some l) = ''['' @ l @ ''] ''"
  by (simp add: label_prefix_def)

text \<open>
  Claim C10, as amended. In the controllers a news payload without \<^verbatim>\<open>articles\<close> is
  displayed as the empty array: the notice "No news articles available." is printed,
  the news display throws nothing, and the run goes on to what follows. In the callback
  controller and in the sequential promise chain this is the whole of the news stage. In
  the \<^verbatim>\<open>Promise.all\<close> handler and in the async/await run the weather is displayed first
  by the same code, so the notice is reached when that display has completed; when it
  throws, the handler ends there. The flat callback script defaults a payload without
  \<^verbatim>\<open>posts\<close> to the empty array as well and goes on to the second weather fetch, but it
  prints its heading with no headline under it: it has no notice for an empty list.
\<close>

theorem missing_articles_default:
  assumes "opt_get (Some newsData) ''articles'' = None"
    and "opt_get (Some postsData) ''posts'' = None"
  shows "onNews P net (Inr newsData) w
           = (None, later (getWeatherCallback P net None None (onSecondWeather P))
                      (console_log (''[Callback] '' @ WARNING_SIGN @ ''  No news articles available.'') w))
       \<and> chainOnNews P newsData w
           = (Fulfilled (),
              console_log (''[Promise - Sequential] '' @ WARNING_SIGN @ ''  No news articles available.'') w)
       \<and> (displayWeather P weatherData (Some ''Promise.all'')
             (console_log (NEWLINE @ ''--- Promise.all() Results (Parallel Fetch) ---'') w)
             = (None, shown) \<longrightarrow>
           onAll P [weatherData, Some newsData] w
             = (Fulfilled (),
                console_log (''[Promise.all] '' @ WARNING_SIGN @ ''  No news articles available.'') shown))
       \<and> (displayWeather P weatherData (Some ''Async/Await'') w = (None, displayed) \<longrightarrow>
           afterBoth P net [weatherData, Some newsData] w
             = additionalFetch P net
                 (console_log (''[Async/Await] '' @ WARNING_SIGN @ ''  No news articles available.'')
                   displayed))
       \<and> (displayWeather P weatherData (Some ''Promise.all'')
             (console_log (NEWLINE @ ''--- Promise.all() Results (Parallel Fetch) ---'') w)
             = (Some thrown, shown) \<longrightarrow>
           onAll P [weatherData, Some newsData] w = (Rejected thrown, shown))
       \<and> (displayWeather P weatherData (Some ''Async/Await'') w = (Some thrown, displayed) \<longrightarrow>
           afterBoth P net [weatherData, Some newsData] w
             = displayFooter VERSION_async (displayError ''Async/Await Run'' thrown displayed))
       \<and> legacy_onNews P net (Inr postsData) w
           = (None, later (httpsGetJson P net (legacy_weatherUrl P) (legacy_onSecondWeather P))
                      (console_log ''News (callback) received. Top headlines:'' w))"
proof -
  have empty: "articles_of (Some newsData) = JArray []"
    using assms(1) by (rule articles_of_missing)
  have callback: "onNews P net (Inr newsData) w
           = (None, later (getWeatherCallback P net None None (onSecondWeather P))
                      (console_log (''[Callback] '' @ WARNING_SIGN @ ''  No news articles available.'') w))"
    by (simp add: onNews_def empty displayNews_empty label_prefix_Some no_articles_def)
  have chain: "chainOnNews P newsData w
           = (Fulfilled (),
              console_log (''[Promise - Sequential] '' @ WARNING_SIGN @ ''  No news articles available.'') w)"
    by (simp add: chainOnNews_def empty displayNews_empty label_prefix_Some no_articles_def
        completion_def)
  have both: "onAll P [weatherData, Some newsData] w
             = (Fulfilled (),
                console_log (''[Promise.all] '' @ WARNING_SIGN @ ''  No news articles available.'') shown)"
    if "displayWeather P weatherData (Some ''Promise.all'')
             (console_log (NEWLINE @ ''--- Promise.all() Results (Parallel Fetch) ---'') w)
             = (None, shown)"
    using that
    by (simp add: onAll_def element_def empty displayNews_empty label_prefix_Some no_articles_def
        completion_def)
  have async: "afterBoth P net [weatherData, Some newsData] w
             = additionalFetch P net
                 (console_log (''[Async/Await] '' @ WARNING_SIGN @ ''  No news articles available.'')
                   displayed)"
    if "displayWeather P weatherData (Some ''Async/Await'') w = (None, displayed)"
    using that
    by (simp add: afterBoth_def element_def empty displayNews_empty label_prefix_Some
        no_articles_def)
  have both_thrown: "onAll P [weatherData, Some newsData] w = (Rejected thrown, shown)"
    if "displayWeather P weatherData (Some ''Promise.all'')
             (console_log (NEWLINE @ ''--- Promise.all() Results (Parallel Fetch) ---'') w)
             = (Some thrown, shown)"
    using that by (simp add: onAll_def element_def)
  have async_thrown: "afterBoth P net [weatherData, Some newsData] w
             = displayFooter VERSION_async (displayError ''Async/Await Run'' thrown displayed)"
    if "displayWeather P weatherData (Some ''Async/Await'') w = (Some thrown, displayed)"
    using that by (simp add: afterBoth_def element_def)
  have flat: "legacy_onNews P net (Inr postsData) w
           = (None, later (httpsGetJson P net (legacy_weatherUrl P) (legacy_onSecondWeather P))
                      (console_log ''News (callback) received. Top headlines:'' w))"
    using assms(2) by (simp add: legacy_onNews_def headlines_def)
  show ?thesis
    using callback chain both async both_thrown async_thrown flat by blast
qed

theorem missing_articles_default_witness:
  "opt_get (Some status_doc) ''articles'' = None
   \<and> opt_get (Some status_doc) ''posts'' = None
   \<and> fst (displayWeather demo (Some weather_doc) (Some ''Promise.all'')
        (console_log (NEWLINE @ ''--- Promise.all() Results (Parallel Fetch) ---'') start)) = None
   \<and> fst (displayWeather demo (Some weather_doc) (Some ''Async/Await'') start) = None
   \<and> fst (displayWeather demo
        (Some (JObject [(''current_weather'',
           JObject [(''temperature'', JObject [(''toString'', JNumber 0)])])]))
        (Some ''Promise.all'')
        (console_log (NEWLINE @ ''--- Promise.all() Results (Parallel Fetch) ---'') start))
       = Some (JsTypeError ''Cannot convert object to primitive value'')
   \<and> fst (displayWeather demo
        (Some (JObject [(''current_weather'',
           JObject [(''temperature'', JObject [(''toString'', JNumber 0)])])]))
        (Some ''Async/Await'') start)
       = Some (JsTypeError ''Cannot convert object to primitive value'')
   \<and> chainOnNews demo status_doc start
       = (Fulfilled (),
          start\<lparr>console := [Out (''[Promise - Sequential] '' @ WARNING_SIGN @ ''  No news articles available.'')]\<rparr>)
   \<and> console (snd (onNews demo (scripted []) (Inr status_doc) start))
       = [Out (''[Callback] '' @ WARNING_SIGN @ ''  No news articles available.''),
          Err (CROSS_MARK @ ''  Error [Second Weather Fetch]: connect ECONNREFUSED'')]
   \<and> console (snd (onAll demo [Some weather_doc, Some status_doc] start))
       = [Out (NEWLINE @ ''--- Promise.all() Results (Parallel Fetch) ---''),
          Out (''[Promise.all] '' @ THERMOMETER @ ''  Temperature in Pretoria: 22'' @ DEGREE_SIGN @ ''C''),
          Out (''[Promise.all] '' @ DASH_SYMBOL @ ''  Wind Speed: 8.3 km/h''),
          Out (''[Promise.all] '' @ WARNING_SIGN @ ''  No news articles available.'')]
   \<and> console (afterBoth demo (scripted []) [Some weather_doc, Some status_doc] start)
       = [Out (''[Async/Await] '' @ THERMOMETER @ ''  Temperature in Pretoria: 22'' @ DEGREE_SIGN @ ''C''),
          Out (''[Async/Await] '' @ DASH_SYMBOL @ ''  Wind Speed: 8.3 km/h''),
          Out (''[Async/Await] '' @ WARNING_SIGN @ ''  No news articles available.''),
          Err (CROSS_MARK @ ''  Error [Additional Weather Fetch]: connect ECONNREFUSED''),
          Out (NEWLINE @ rule50),
          Out (CHECK_MARK @ ''  Async/Await '' @ EM_DASH @ '' Complete''),
          Out (rule50 @ NEWLINE)]
   \<and> onAll demo
        [Some (JObject [(''current_weather'',
           JObject [(''temperature'', JObject [(''toString'', JNumber 0)])])]), Some status_doc]
        start
       = (Rejected (JsTypeError ''Cannot convert object to primitive value''),
          start\<lparr>console := [Out (NEWLINE @ ''--- Promise.all() Results (Parallel Fetch) ---'')]\<rparr>)
   \<and> console (afterBoth demo (scripted [])
        [Some (JObject [(''current_weather'',
           JObject [(''temperature'', JObject [(''toString'', JNumber 0)])])]), Some status_doc]
        start)
       = [Err (CROSS_MARK @ ''  Error [Async/Await Run]: Cannot convert object to primitive value''),
          Out (NEWLINE @ rule50),
          Out (CHECK_MARK @ ''  Async/Await '' @ EM_DASH @ '' Complete''),
          Out (rule50 @ NEWLINE)]"
proof -
  let ?odd = "Some (JObject [(''current_weather'',
           JObject [(''temperature'', JObject [(''toString'', JNumber 0)])])])"
  let ?unable = "JsTypeError ''Cannot convert object to primitive value''"
  let ?headed = "console_log (NEWLINE @ ''--- Promise.all() Results (Parallel Fetch) ---'') start"
  let ?shown = "displayWeather demo (Some weather_doc) (Some ''Promise.all'') ?headed"
  let ?displayed = "displayWeather demo (Some weather_doc) (Some ''Async/Await'') start"
  have h1: "opt_get (Some status_doc) ''articles'' = None"
    by (simp add: status_doc_def)
  have h2: "opt_get (Some status_doc) ''posts'' = None"
    by (simp add: status_doc_def)
  have ok: "fst ?shown = None"
    by (simp add: displayWeather_completes weather_doc_def if_truthy_def converts_primitives)
  then have h3: "?shown = (None, snd ?shown)"
    by (simp add: prod_eq_iff)
  have fine: "fst ?displayed = None"
    by (simp add: displayWeather_completes weather_doc_def if_truthy_def converts_primitives)
  then have h4: "?displayed = (None, snd ?displayed)"
    by (simp add: prod_eq_iff)
  have h5: "displayWeather demo ?odd (Some ''Promise.all'') ?headed = (Some ?unable, ?headed)"
    by (simp add: displayWeather_def if_truthy_def template_def not_primitive_def)
  have h6: "displayWeather demo ?odd (Some ''Async/Await'') start = (Some ?unable, start)"
    by (simp add: displayWeather_def if_truthy_def template_def not_primitive_def)
  note plain = missing_articles_default [where P = demo and net = "scripted []" and w = start
        and newsData = status_doc and postsData = status_doc, OF h1 h2]
  have callback: "console (snd (onNews demo (scripted []) (Inr status_doc) start))
       = [Out (''[Callback] '' @ WARNING_SIGN @ ''  No news articles available.''),
          Err (CROSS_MARK @ ''  Error [Second Weather Fetch]: connect ECONNREFUSED'')]"
    using plain [where weatherData = None]
    by (simp add: later_def model_defs client_defs onSecondWeather_def view_defs scripted_def
        start_def Let_def)
  have chain: "chainOnNews demo status_doc start
       = (Fulfilled (),
          start\<lparr>console := [Out (''[Promise - Sequential] '' @ WARNING_SIGN @ ''  No news articles available.'')]\<rparr>)"
    using plain [where weatherData = None] by (simp add: console_log_def start_def)
  have both: "onAll demo [Some weather_doc, Some status_doc] start
      = (Fulfilled (),
         console_log (''[Promise.all] '' @ WARNING_SIGN @ ''  No news articles available.'') (snd ?shown))"
    using plain [where weatherData = "Some weather_doc" and shown = "snd ?shown"] h3
    by simp
  have async: "afterBoth demo (scripted []) [Some weather_doc, Some status_doc] start
      = additionalFetch demo (scripted [])
          (console_log (''[Async/Await] '' @ WARNING_SIGN @ ''  No news articles available.'')
            (snd ?displayed))"
    using plain [where weatherData = "Some weather_doc" and displayed = "snd ?displayed"] h4
    by simp
  have both_thrown: "onAll demo [?odd, Some status_doc] start = (Rejected ?unable, ?headed)"
    using plain [where weatherData = ?odd and shown = ?headed and thrown = ?unable] h5
    by simp
  have async_thrown: "afterBoth demo (scripted []) [?odd, Some status_doc] start
      = displayFooter VERSION_async (displayError ''Async/Await Run'' ?unable start)"
    using plain [where weatherData = ?odd and displayed = start and thrown = ?unable] h6
    by simp
  have lines: "console (snd ?shown)
      = [Out (NEWLINE @ ''--- Promise.all() Results (Parallel Fetch) ---''),
         Out (''[Promise.all] '' @ THERMOMETER @ ''  Temperature in Pretoria: 22'' @ DEGREE_SIGN @ ''C''),
         Out (''[Promise.all] '' @ DASH_SYMBOL @ ''  Wind Speed: 8.3 km/h'')]"
    by (simp add: view_defs demo_defs DEFAULT_LOCATION_city_def Let_def)
  have supplementary: "console (additionalFetch demo (scripted [])
          (console_log (''[Async/Await] '' @ WARNING_SIGN @ ''  No news articles available.'')
            (snd ?displayed)))
      = [Out (''[Async/Await] '' @ THERMOMETER @ ''  Temperature in Pretoria: 22'' @ DEGREE_SIGN @ ''C''),
         Out (''[Async/Await] '' @ DASH_SYMBOL @ ''  Wind Speed: 8.3 km/h''),
         Out (''[Async/Await] '' @ WARNING_SIGN @ ''  No news articles available.''),
         Err (CROSS_MARK @ ''  Error [Additional Weather Fetch]: connect ECONNREFUSED''),
         Out (NEWLINE @ rule50),
         Out (CHECK_MARK @ ''  Async/Await '' @ EM_DASH @ '' Complete''),
         Out (rule50 @ NEWLINE)]"
    by (simp add: additionalFetch_def flow_defs model_defs client_defs view_defs demo_defs
        scripted_def VERSION_async_def DEFAULT_LOCATION_city_def Let_def)
  show ?thesis
    unfolding both async both_thrown async_thrown supplementary
    using h1 h2 ok fine h5 h6 callback chain lines
    by (simp add: console_log_def displayFooter_def displayError_def console_error_def
        VERSION_async_def Let_def start_def)
qed

text \<open>
  The claim as stated fails on the flat callback script: with a news payload that has no
  \<^verbatim>\<open>posts\<close>, the run completes and no line of its output is an empty-list notice.
\<close>

theorem flat_script_prints_no_notice:
  \<open>console (callbackVersion demo
       (scripted [complete (Some 200) [''{"current_weather":{"temperature":22,"windspeed":8.3}}''],
                  complete (Some 200) [''{"status":"ok"}''],
                  complete (Some 200) [''{"current_weather":{"temperature":22,"windspeed":8.3}}'']])
       start)
     = [Out ''=== Callback Version ==='',
        Out ''Weather (callback) received, temperature: 22'',
        Out ''News (callback) received. Top headlines:'',
        Out ''Second weather fetch done (callback). Temp: 22'',
        Out ''=== Callback Version Done ===''] 
   \<and> \<not> list_ex (\<lambda>ln. sublist ''No news articles available'' (case ln of Out s \<Rightarrow> s | Err s \<Rightarrow> s))
        (console (callbackVersion demo
       (scripted [complete (Some 200) [''{"current_weather":{"temperature":22,"windspeed":8.3}}''],
                  complete (Some 200) [''{"status":"ok"}''],
                  complete (Some 200) [''{"current_weather":{"temperature":22,"windspeed":8.3}}'']])
       start))\<close>
proof -
  have run: \<open>console (callbackVersion demo
       (scripted [complete (Some 200) [''{"current_weather":{"temperature":22,"windspeed":8.3}}''],
                  complete (Some 200) [''{"status":"ok"}''],
                  complete (Some 200) [''{"current_weather":{"temperature":22,"windspeed":8.3}}'']])
       start)
     = [Out ''=== Callback Version ==='',
        Out ''Weather (callback) received, temperature: 22'',
        Out ''News (callback) received. Top headlines:'',
        Out ''Second weather fetch done (callback). Temp: 22'',
        Out ''=== Callback Version Done ==='']\<close>
    by (simp add: callbackVersion_def legacy_onWeather_def legacy_onNews_def
        legacy_onSecondWeather_def headlines_def client_defs demo_defs model_defs view_defs
        flow_defs Let_def)
  show ?thesis
    unfolding run by (simp add: sublist_Cons_right)
qed


section \<open>The parallel orchestrators\<close>

lemma decimal_500: "decimal 500 = ''500''"
  by (simp add: decimal.simps)

lemma all_both_fulfilled:
  "Promise_all 2 (settle_order ord (Fulfilled a) (Fulfilled b)) = Fulfilled [Some a, Some b]"
  by (cases ord)
    (simp_all add: Promise_all_def settle_order_def all_init_def Let_def numeral_2_eq_2)

lemma all_first_rejected:
  "Promise_all 2 (settle_order ord (Rejected e) (Fulfilled b)) = Rejected e"
  by (cases ord)
    (simp_all add: Promise_all_def settle_order_def all_init_def Let_def numeral_2_eq_2)

lemma all_second_rejected:
  "Promise_all 2 (settle_order ord (Fulfilled a) (Rejected e)) = Rejected e"
  by (cases ord)
    (simp_all add: Promise_all_def settle_order_def all_init_def Let_def numeral_2_eq_2)

lemma all_both_rejected:
  "Promise_all 2 (settle_order FirstSettlesFirst (Rejected e) (Rejected e')) = Rejected e"
  "Promise_all 2 (settle_order SecondSettlesFirst (Rejected e) (Rejected e')) = Rejected e'"
  by (simp_all add: Promise_all_def settle_order_def all_init_def)

lemma allHandlers_rejected:
  "allHandlers P (Rejected e) w = (Fulfilled (), displayError ''Promise.all'' e w)"
  by (simp add: allHandlers_def then_p_def catch_p_def)

lemma promiseAll_unfold:
  "promiseAll P net ord w =
     allHandlers P
       (Promise_all 2 (settle_order ord
          (settle P (net (length (requests w)) (reqOptions (weatherUrl P None None) \<lparr>opt_headers = None\<rparr>)))
          (settle P (net (Suc (length (requests w)))
             (reqOptions (newsUrl P (Some ''us'') (Some 5)) \<lparr>opt_headers = Some (getNewsHeaders P)\<rparr>)))))
       (w\<lparr>requests := requests w @ [reqOptions (weatherUrl P None None) \<lparr>opt_headers = None\<rparr>,
            reqOptions (newsUrl P (Some ''us'') (Some 5)) \<lparr>opt_headers = Some (getNewsHeaders P)\<rparr>]\<rparr>)"
  by (simp add: promiseAll_def weather_promise news_promise)

lemma run_unfold:
  "run P net ord w =
     (case Promise_all 2 (settle_order ord
          (settle P (net (length (requests w)) (reqOptions (weatherUrl P None None) \<lparr>opt_headers = None\<rparr>)))
          (settle P (net (Suc (length (requests w)))
             (reqOptions (newsUrl P (Some ''us'') (Some 5)) \<lparr>opt_headers = Some (getNewsHeaders P)\<rparr>)))) of
        Pending \<Rightarrow> (displayHeader VERSION_async w)\<lparr>requests := requests w @ [reqOptions (weatherUrl P None None) \<lparr>opt_headers = None\<rparr>,
            reqOptions (newsUrl P (Some ''us'') (Some 5)) \<lparr>opt_headers = Some (getNewsHeaders P)\<rparr>]\<rparr>
      | Rejected err \<Rightarrow> displayFooter VERSION_async (displayError ''Async/Await Run'' err
          ((displayHeader VERSION_async w)\<lparr>requests := requests w @ [reqOptions (weatherUrl P None None) \<lparr>opt_headers = None\<rparr>,
            reqOptions (newsUrl P (Some ''us'') (Some 5)) \<lparr>opt_headers = Some (getNewsHeaders P)\<rparr>]\<rparr>))
      | Fulfilled results \<Rightarrow> afterBoth P net results
          ((displayHeader VERSION_async w)\<lparr>requests := requests w @ [reqOptions (weatherUrl P None None) \<lparr>opt_headers = None\<rparr>,
            reqOptions (newsUrl P (Some ''us'') (Some 5)) \<lparr>opt_headers = Some (getNewsHeaders P)\<rparr>]\<rparr>))"
  by (simp add: run_def weather_promise news_promise Let_def split: promise.splits)

text \<open>
  Claim C4. Both fetches are started, weather first and news second. Whichever of them
  settles first: when both succeed, the handlers of \<^verbatim>\<open>Promise.all\<close> (in the promise
  controller) and the code after the \<^verbatim>\<open>await\<close> (in the async/await controller) get the
  pair with the weather payload first and the news payload second; when one fails, that
  failure is what is rendered; when both fail, the failure that settled first is.
\<close>

theorem parallel_all_aggregate:
  fixes P :: platform and net :: network and w :: world
  defines "rqW \<equiv> reqOptions (weatherUrl P None None) \<lparr>opt_headers = None\<rparr>"
    and "rqN \<equiv> reqOptions (newsUrl P (Some ''us'') (Some 5)) \<lparr>opt_headers = Some (getNewsHeaders P)\<rparr>"
  defines "p0 \<equiv> settle P (net (length (requests w)) rqW)"
    and "p1 \<equiv> settle P (net (Suc (length (requests w))) rqN)"
    and "w2 \<equiv> w\<lparr>requests := requests w @ [rqW, rqN]\<rparr>"
    and "v2 \<equiv> (displayHeader VERSION_async w)\<lparr>requests := requests w @ [rqW, rqN]\<rparr>"
  shows "(p0 = Fulfilled a \<and> p1 = Fulfilled b \<longrightarrow>
            promiseAll P net ord w = allHandlers P (Fulfilled [Some a, Some b]) w2
          \<and> run P net ord w = afterBoth P net [Some a, Some b] v2)
       \<and> (p0 = Rejected e \<and> p1 = Fulfilled b \<longrightarrow>
            promiseAll P net ord w = (Fulfilled (), displayError ''Promise.all'' e w2)
          \<and> run P net ord w = displayFooter VERSION_async (displayError ''Async/Await Run'' e v2))
       \<and> (p0 = Fulfilled a \<and> p1 = Rejected e \<longrightarrow>
            promiseAll P net ord w = (Fulfilled (), displayError ''Promise.all'' e w2)
          \<and> run P net ord w = displayFooter VERSION_async (displayError ''Async/Await Run'' e v2))
       \<and> (p0 = Rejected e \<and> p1 = Rejected e' \<longrightarrow>
            promiseAll P net FirstSettlesFirst w = (Fulfilled (), displayError ''Promise.all'' e w2)
          \<and> promiseAll P net SecondSettlesFirst w = (Fulfilled (), displayError ''Promise.all'' e' w2)
          \<and> run P net FirstSettlesFirst w
              = displayFooter VERSION_async (displayError ''Async/Await Run'' e v2)
          \<and> run P net SecondSettlesFirst w
              = displayFooter VERSION_async (displayError ''Async/Await Run'' e' v2))"
proof -
  have all: "promiseAll P net ord' w = allHandlers P (Promise_all 2 (settle_order ord' p0 p1)) w2"
    for ord'
    unfolding p0_def p1_def w2_def rqW_def rqN_def by (rule promiseAll_unfold)
  have async: "run P net ord' w =
     (case Promise_all 2 (settle_order ord' p0 p1) of
        Pending \<Rightarrow> v2
      | Rejected err \<Rightarrow> displayFooter VERSION_async (displayError ''Async/Await Run'' err v2)
      | Fulfilled results \<Rightarrow> afterBoth P net results v2)"
    for ord'
    unfolding p0_def p1_def v2_def rqW_def rqN_def by (rule run_unfold)
  have both: "promiseAll P net ord w = allHandlers P (Fulfilled [Some a, Some b]) w2
      \<and> run P net ord w = afterBoth P net [Some a, Some b] v2"
    if "p0 = Fulfilled a" "p1 = Fulfilled b"
    by (simp add: all async that all_both_fulfilled)
  have first: "promiseAll P net ord w = (Fulfilled (), displayError ''Promise.all'' e w2)
      \<and> run P net ord w = displayFooter VERSION_async (displayError ''Async/Await Run'' e v2)"
    if "p0 = Rejected e" "p1 = Fulfilled b"
    by (simp add: all async that all_first_rejected allHandlers_rejected)
  have second: "promiseAll P net ord w = (Fulfilled (), displayError ''Promise.all'' e w2)
      \<and> run P net ord w = displayFooter VERSION_async (displayError ''Async/Await Run'' e v2)"
    if "p0 = Fulfilled a" "p1 = Rejected e"
    by (simp add: all async that all_second_rejected allHandlers_rejected)
  have neither: "promiseAll P net FirstSettlesFirst w = (Fulfilled (), displayError ''Promise.all'' e w2)
      \<and> promiseAll P net SecondSettlesFirst w = (Fulfilled (), displayError ''Promise.all'' e' w2)
      \<and> run P net FirstSettlesFirst w
          = displayFooter VERSION_async (displayError ''Async/Await Run'' e v2)
      \<and> run P net SecondSettlesFirst w
          = displayFooter VERSION_async (displayError ''Async/Await Run'' e' v2)"
    if "p0 = Rejected e" "p1 = Rejected e'"
    by (simp add: all async that all_both_rejected allHandlers_rejected)
  show ?thesis
    using both first second neither by blast
qed

theorem parallel_all_aggregate_witness:
  "settle demo (scripted [complete (Some 200) [weather_body], complete (Some 200) [news_body]]
       (length (requests start)) (reqOptions (weatherUrl demo None None) \<lparr>opt_headers = None\<rparr>))
     = Fulfilled weather_doc
   \<and> settle demo (scripted [complete (Some 200) [weather_body], complete (Some 200) [news_body]]
       (Suc (length (requests start)))
       (reqOptions (newsUrl demo (Some ''us'') (Some 5)) \<lparr>opt_headers = Some (getNewsHeaders demo)\<rparr>))
     = Fulfilled news_doc
   \<and> console (snd (promiseAll demo
         (scripted [complete (Some 200) [weather_body], complete (Some 200) [news_body]])
         SecondSettlesFirst start))
     = [Out (NEWLINE @ ''--- Promise.all() Results (Parallel Fetch) ---''),
        Out (''[Promise.all] '' @ THERMOMETER @ ''  Temperature in Pretoria: 22'' @ DEGREE_SIGN @ ''C''),
        Out (''[Promise.all] '' @ DASH_SYMBOL @ ''  Wind Speed: 8.3 km/h''),
        Out (NEWLINE @ ''[Promise.all] '' @ NEWSPAPER @ ''  Top News Headlines:''),
        Out ''   1. X'',
        Out ''   2. Y'']
   \<and> console (snd (promiseAll demo
         (scripted [complete (Some 500) [''down''], complete (Some 404) [''gone'']])
         SecondSettlesFirst start))
     = [Err (CROSS_MARK @ ''  Error [Promise.all]: HTTP request failed with status 404: gone'')]
   \<and> console (snd (promiseAll demo
         (scripted [complete (Some 500) [''down''], complete (Some 200) [news_body]])
         SecondSettlesFirst start))
     = [Err (CROSS_MARK @ ''  Error [Promise.all]: HTTP request failed with status 500: down'')]
   \<and> console (snd (promiseAll demo
         (scripted [complete (Some 200) [weather_body], complete (Some 404) [''gone'']])
         FirstSettlesFirst start))
     = [Err (CROSS_MARK @ ''  Error [Promise.all]: HTTP request failed with status 404: gone'')]"
proof -
  let ?rqW = "reqOptions (weatherUrl demo None None) \<lparr>opt_headers = None\<rparr>"
  let ?rqN = "reqOptions (newsUrl demo (Some ''us'') (Some 5)) \<lparr>opt_headers = Some (getNewsHeaders demo)\<rparr>"
  let ?ok = "scripted [complete (Some 200) [weather_body], complete (Some 200) [news_body]]"
  let ?bad = "scripted [complete (Some 500) [''down''], complete (Some 404) [''gone'']]"
  let ?badW = "scripted [complete (Some 500) [''down''], complete (Some 200) [news_body]]"
  let ?badN = "scripted [complete (Some 200) [weather_body], complete (Some 404) [''gone'']]"
  have w_ok: "settle demo (?ok (length (requests start)) ?rqW) = Fulfilled weather_doc"
    by (simp add: client_defs demo_defs)
  have n_ok: "settle demo (?ok (Suc (length (requests start))) ?rqN) = Fulfilled news_doc"
    by (simp add: client_defs demo_defs)
  have w_bad: "settle demo (?bad (length (requests start)) ?rqW)
      = Rejected (JsError ''HTTP request failed with status 500: down'')"
    by (simp add: client_defs demo_defs decimal_500)
  have n_bad: "settle demo (?bad (Suc (length (requests start))) ?rqN)
      = Rejected (JsError ''HTTP request failed with status 404: gone'')"
    by (simp add: client_defs demo_defs decimal_404)
  have w_badW: "settle demo (?badW (length (requests start)) ?rqW)
      = Rejected (JsError ''HTTP request failed with status 500: down'')"
    by (simp add: client_defs demo_defs decimal_500)
  have n_badW: "settle demo (?badW (Suc (length (requests start))) ?rqN) = Fulfilled news_doc"
    by (simp add: client_defs demo_defs)
  have w_badN: "settle demo (?badN (length (requests start)) ?rqW) = Fulfilled weather_doc"
    by (simp add: client_defs demo_defs)
  have n_badN: "settle demo (?badN (Suc (length (requests start))) ?rqN)
      = Rejected (JsError ''HTTP request failed with status 404: gone'')"
    by (simp add: client_defs demo_defs decimal_404)
  have ok: "promiseAll demo ?ok SecondSettlesFirst start
      = allHandlers demo (Fulfilled [Some weather_doc, Some news_doc])
          (start\<lparr>requests := requests start @ [?rqW, ?rqN]\<rparr>)"
    using parallel_all_aggregate [where P = demo and net = ?ok and w = start
        and ord = SecondSettlesFirst and a = weather_doc and b = news_doc] w_ok n_ok
    by simp
  have bad: "promiseAll demo ?bad SecondSettlesFirst start
      = (Fulfilled (), displayError ''Promise.all'' (JsError ''HTTP request failed with status 404: gone'')
          (start\<lparr>requests := requests start @ [?rqW, ?rqN]\<rparr>))"
    using parallel_all_aggregate [where P = demo and net = ?bad and w = start
        and e = "JsError ''HTTP request failed with status 500: down''"
        and e' = "JsError ''HTTP request failed with status 404: gone''"] w_bad n_bad
    by simp
  have badW: "promiseAll demo ?badW SecondSettlesFirst start
      = (Fulfilled (), displayError ''Promise.all'' (JsError ''HTTP request failed with status 500: down'')
          (start\<lparr>requests := requests start @ [?rqW, ?rqN]\<rparr>))"
    using parallel_all_aggregate [where P = demo and net = ?badW and w = start
        and ord = SecondSettlesFirst and b = news_doc
        and e = "JsError ''HTTP request failed with status 500: down''"] w_badW n_badW
    by simp
  have badN: "promiseAll demo ?badN FirstSettlesFirst start
      = (Fulfilled (), displayError ''Promise.all'' (JsError ''HTTP request failed with status 404: gone'')
          (start\<lparr>requests := requests start @ [?rqW, ?rqN]\<rparr>))"
    using parallel_all_aggregate [where P = demo and net = ?badN and w = start
        and ord = FirstSettlesFirst and a = weather_doc
        and e = "JsError ''HTTP request failed with status 404: gone''"] w_badN n_badN
    by simp
  have shown: "console (snd (allHandlers demo (Fulfilled [Some weather_doc, Some news_doc])
          (start\<lparr>requests := requests start @ [?rqW, ?rqN]\<rparr>)))
     = [Out (NEWLINE @ ''--- Promise.all() Results (Parallel Fetch) ---''),
        Out (''[Promise.all] '' @ THERMOMETER @ ''  Temperature in Pretoria: 22'' @ DEGREE_SIGN @ ''C''),
        Out (''[Promise.all] '' @ DASH_SYMBOL @ ''  Wind Speed: 8.3 km/h''),
        Out (NEWLINE @ ''[Promise.all] '' @ NEWSPAPER @ ''  Top News Headlines:''),
        Out ''   1. X'',
        Out ''   2. Y'']"
    by (simp add: allHandlers_def onAll_def flow_defs view_defs demo_defs DEFAULT_LOCATION_city_def
        decimal.simps Let_def)
  show ?thesis
    unfolding ok bad badW badN
    using w_ok n_ok shown
    by (simp add: displayError_def console_error_def start_def)
qed


section \<open>The race\<close>

lemma race_first_wins:
  "p \<noteq> Pending \<Longrightarrow> Promise_race (settlement i p @ settlement j q) = p"
  by (cases p; cases q) (simp_all add: Promise_race_def)

lemma raceHandlers_rejected:
  "raceHandlers P (Rejected e) w = (Fulfilled (), displayError ''Promise.race'' e w)"
  by (simp add: raceHandlers_def then_p_def catch_p_def)

lemma legacy_raceHandlers_rejected:
  "legacy_raceHandlers P (Rejected e) w
     = (Fulfilled (), console_error (''Promise.race error: '' @ message e) w)"
  by (simp add: legacy_raceHandlers_def then_p_def catch_p_def)

lemma raceHandlers_never_rejected: "fst (raceHandlers P p w) \<noteq> Rejected x"
proof (cases p)
  case Pending
  then show ?thesis by (simp add: raceHandlers_def then_p_def catch_p_def)
next
  case (Rejected e)
  then show ?thesis by (simp add: raceHandlers_rejected)
next
  case (Fulfilled v)
  obtain q w1 where step: "onRace P v w = (q, w1)" by (cases "onRace P v w")
  show ?thesis
    by (cases q) (simp_all add: raceHandlers_def then_p_def catch_p_def Fulfilled step)
qed

lemma legacy_raceHandlers_never_rejected: "fst (legacy_raceHandlers P p w) \<noteq> Rejected x"
proof (cases p)
  case Pending
  then show ?thesis by (simp add: legacy_raceHandlers_def then_p_def catch_p_def)
next
  case (Rejected e)
  then show ?thesis by (simp add: legacy_raceHandlers_rejected)
next
  case (Fulfilled v)
  obtain q w1 where step: "legacy_onRace P v w = (q, w1)" by (cases "legacy_onRace P v w")
  show ?thesis
    by (cases q) (simp_all add: legacy_raceHandlers_def then_p_def catch_p_def Fulfilled step)
qed

lemma promiseRace_unfold:
  "promiseRace P net ord w =
     raceHandlers P
       (Promise_race (settle_order ord
          (settle P (net (length (requests w)) (reqOptions (weatherUrl P None None) \<lparr>opt_headers = None\<rparr>)))
          (settle P (net (Suc (length (requests w)))
             (reqOptions (newsUrl P (Some ''us'') (Some 5)) \<lparr>opt_headers = Some (getNewsHeaders P)\<rparr>)))))
       (w\<lparr>requests := requests w @ [reqOptions (weatherUrl P None None) \<lparr>opt_headers = None\<rparr>,
            reqOptions (newsUrl P (Some ''us'') (Some 5)) \<lparr>opt_headers = Some (getNewsHeaders P)\<rparr>]\<rparr>)"
  by (simp add: promiseRace_def weather_promise news_promise)

lemma legacy_promiseRace_unfold:
  "legacy_promiseRace P net ord w =
     legacy_raceHandlers P
       (Promise_race (settle_order ord
          (https_settle P (net (length (requests w))
             \<lparr>target = legacy_weatherUrl P, http_method = ''GET'', headers = []\<rparr>))
          (https_settle P (net (Suc (length (requests w)))
             \<lparr>target = legacy_newsUrl P, http_method = ''GET'', headers = []\<rparr>))))
       (w\<lparr>requests := requests w @ [\<lparr>target = legacy_weatherUrl P, http_method = ''GET'', headers = []\<rparr>,
            \<lparr>target = legacy_newsUrl P, http_method = ''GET'', headers = []\<rparr>]\<rparr>)"
  by (simp add: legacy_promiseRace_def httpsGetJsonPromise_def https_get_def Let_def)

text \<open>
  Claim C5. Both fetches are started. Once the fetch that settles first has settled, by
  success or by failure, the race chain runs its handlers on that outcome and on nothing
  else: the result is the same whatever the other fetch does, also when it never settles,
  so the other outcome is neither awaited nor rendered. A failure that settles first is
  rendered as the error of the race. The chain ends in a \<^verbatim>\<open>catch\<close> whose handler does
  not throw, so the promise of the whole chain is never rejected: no error is left
  unhandled. This holds for the promise controller and for the flat promise script.
\<close>

theorem race_first_settlement:
  fixes P :: platform and net net' :: network and w :: world
  defines "rqW \<equiv> reqOptions (weatherUrl P None None) \<lparr>opt_headers = None\<rparr>"
    and "rqN \<equiv> reqOptions (newsUrl P (Some ''us'') (Some 5)) \<lparr>opt_headers = Some (getNewsHeaders P)\<rparr>"
    and "lqW \<equiv> \<lparr>target = legacy_weatherUrl P, http_method = ''GET'', headers = []\<rparr>"
    and "lqN \<equiv> \<lparr>target = legacy_newsUrl P, http_method = ''GET'', headers = []\<rparr>"
  defines "p0 \<equiv> settle P (net (length (requests w)) rqW)"
    and "p1 \<equiv> settle P (net (Suc (length (requests w))) rqN)"
    and "q0 \<equiv> https_settle P (net' (length (requests w)) lqW)"
    and "q1 \<equiv> https_settle P (net' (Suc (length (requests w))) lqN)"
  shows "(p0 \<noteq> Pending \<longrightarrow>
            promiseRace P net FirstSettlesFirst w
              = raceHandlers P p0 (w\<lparr>requests := requests w @ [rqW, rqN]\<rparr>))
       \<and> (p1 \<noteq> Pending \<longrightarrow>
            promiseRace P net SecondSettlesFirst w
              = raceHandlers P p1 (w\<lparr>requests := requests w @ [rqW, rqN]\<rparr>))
       \<and> (q0 \<noteq> Pending \<longrightarrow>
            legacy_promiseRace P net' FirstSettlesFirst w
              = legacy_raceHandlers P q0 (w\<lparr>requests := requests w @ [lqW, lqN]\<rparr>))
       \<and> (q1 \<noteq> Pending \<longrightarrow>
            legacy_promiseRace P net' SecondSettlesFirst w
              = legacy_raceHandlers P q1 (w\<lparr>requests := requests w @ [lqW, lqN]\<rparr>))
       \<and> raceHandlers P (Rejected e) v = (Fulfilled (), displayError ''Promise.race'' e v)
       \<and> legacy_raceHandlers P (Rejected e) v
            = (Fulfilled (), console_error (''Promise.race error: '' @ message e) v)
       \<and> fst (promiseRace P net ord w) \<noteq> Rejected x
       \<and> fst (legacy_promiseRace P net' ord w) \<noteq> Rejected x"
proof -
  have mvc: "promiseRace P net ord' w
      = raceHandlers P (Promise_race (settle_order ord' p0 p1))
          (w\<lparr>requests := requests w @ [rqW, rqN]\<rparr>)" for ord'
    unfolding p0_def p1_def rqW_def rqN_def by (rule promiseRace_unfold)
  have flat: "legacy_promiseRace P net' ord' w
      = legacy_raceHandlers P (Promise_race (settle_order ord' q0 q1))
          (w\<lparr>requests := requests w @ [lqW, lqN]\<rparr>)" for ord'
    unfolding q0_def q1_def lqW_def lqN_def by (rule legacy_promiseRace_unfold)
  have first: "Promise_race (settle_order FirstSettlesFirst a b) = a" if "a \<noteq> Pending"
    for a b :: "json promise"
    using that by (simp add: settle_order_def race_first_wins)
  have second: "Promise_race (settle_order SecondSettlesFirst a b) = b" if "b \<noteq> Pending"
    for a b :: "json promise"
    using that by (simp add: settle_order_def race_first_wins)
  have contained: "fst (promiseRace P net ord w) \<noteq> Rejected x"
    by (simp add: mvc raceHandlers_never_rejected)
  have contained': "fst (legacy_promiseRace P net' ord w) \<noteq> Rejected x"
    by (simp add: flat legacy_raceHandlers_never_rejected)
  show ?thesis
    using contained contained'
    by (simp add: mvc flat first second raceHandlers_rejected legacy_raceHandlers_rejected)
qed

theorem race_first_settlement_witness:
  "settle demo (scripted [complete (Some 500) [''down''], complete (Some 200) [news_body]]
       (length (requests start)) (reqOptions (weatherUrl demo None None) \<lparr>opt_headers = None\<rparr>))
     \<noteq> Pending
   \<and> console (snd (promiseRace demo
         (scripted [complete (Some 500) [''down''], complete (Some 200) [news_body]])
         FirstSettlesFirst start))
     = [Err (CROSS_MARK @ ''  Error [Promise.race]: HTTP request failed with status 500: down'')]
   \<and> console (snd (promiseRace demo
         (scripted [complete (Some 500) [''down''], complete (Some 200) [news_body]])
         SecondSettlesFirst start))
     = [Out (NEWLINE @ ''--- Promise.race() Winner (First Response) ---''),
        Out (TROPHY @ ''  News API responded first!''),
        Out (NEWLINE @ ''[Promise.race] '' @ NEWSPAPER @ ''  Top News Headlines:''),
        Out ''   1. X'',
        Out ''   2. Y'']
   \<and> console (snd (legacy_promiseRace demo
         (scripted [complete (Some 500) [''down''], complete (Some 200) [weather_body]])
         FirstSettlesFirst start))
     = [Err ''Promise.race error: Request failed. Status code: 500'']
   \<and> console (snd (legacy_promiseRace demo
         (scripted [complete (Some 500) [''down''], complete (Some 200) [weather_body]])
         SecondSettlesFirst start))
     = [Out ''--- Promise.race winner (first resolved) ---'',
        Out ''Winner is weather. Temp: 22'']"
proof -
  let ?rqW = "reqOptions (weatherUrl demo None None) \<lparr>opt_headers = None\<rparr>"
  let ?rqN = "reqOptions (newsUrl demo (Some ''us'') (Some 5)) \<lparr>opt_headers = Some (getNewsHeaders demo)\<rparr>"
  let ?lqW = "\<lparr>target = legacy_weatherUrl demo, http_method = ''GET'', headers = []\<rparr>"
  let ?lqN = "\<lparr>target = legacy_newsUrl demo, http_method = ''GET'', headers = []\<rparr>"
  let ?net = "scripted [complete (Some 500) [''down''], complete (Some 200) [news_body]]"
  let ?net' = "scripted [complete (Some 500) [''down''], complete (Some 200) [weather_body]]"
  have p0: "settle demo (?net (length (requests start)) ?rqW)
      = Rejected (JsError ''HTTP request failed with status 500: down'')"
    by (simp add: client_defs demo_defs decimal_500)
  have p1: "settle demo (?net (Suc (length (requests start))) ?rqN) = Fulfilled news_doc"
    by (simp add: client_defs demo_defs)
  have q0: "https_settle demo (?net' (length (requests start)) ?lqW)
      = Rejected (JsError ''Request failed. Status code: 500'')"
    by (simp add: client_defs demo_defs decimal_500)
  have q1: "https_settle demo (?net' (Suc (length (requests start))) ?lqN) = Fulfilled weather_doc"
    by (simp add: client_defs demo_defs)
  note race = race_first_settlement [where P = demo and net = ?net and net' = ?net' and w = start]
  have a: "promiseRace demo ?net FirstSettlesFirst start
      = raceHandlers demo (Rejected (JsError ''HTTP request failed with status 500: down''))
          (start\<lparr>requests := requests start @ [?rqW, ?rqN]\<rparr>)"
    using race p0 by simp
  have b: "promiseRace demo ?net SecondSettlesFirst start
      = raceHandlers demo (Fulfilled news_doc) (start\<lparr>requests := requests start @ [?rqW, ?rqN]\<rparr>)"
    using race p1 by simp
  have c: "legacy_promiseRace demo ?net' FirstSettlesFirst start
      = legacy_raceHandlers demo (Rejected (JsError ''Request failed. Status code: 500''))
          (start\<lparr>requests := requests start @ [?lqW, ?lqN]\<rparr>)"
    using race q0 by simp
  have d: "legacy_promiseRace demo ?net' SecondSettlesFirst start
      = legacy_raceHandlers demo (Fulfilled weather_doc)
          (start\<lparr>requests := requests start @ [?lqW, ?lqN]\<rparr>)"
    using race q1 by simp
  have news: "console (snd (raceHandlers demo (Fulfilled news_doc)
          (start\<lparr>requests := requests start @ [?rqW, ?rqN]\<rparr>)))
     = [Out (NEWLINE @ ''--- Promise.race() Winner (First Response) ---''),
        Out (TROPHY @ ''  News API responded first!''),
        Out (NEWLINE @ ''[Promise.race] '' @ NEWSPAPER @ ''  Top News Headlines:''),
        Out ''   1. X'',
        Out ''   2. Y'']"
    by (simp add: raceHandlers_def onRace_def flow_defs view_defs demo_defs decimal.simps Let_def)
  have weather: "console (snd (legacy_raceHandlers demo (Fulfilled weather_doc)
          (start\<lparr>requests := requests start @ [?lqW, ?lqN]\<rparr>)))
     = [Out ''--- Promise.race winner (first resolved) ---'',
        Out ''Winner is weather. Temp: 22'']"
    by (simp add: legacy_raceHandlers_def legacy_onRace_def flow_defs view_defs demo_defs Let_def)
  show ?thesis
    unfolding a b c d
    using p0 news weather
    by (simp add: raceHandlers_rejected legacy_raceHandlers_rejected displayError_def
        console_error_def start_def)
qed

section \<open>A winner of the race that is neither weather nor news\<close>

text \<open>
  Claim C8 at a failing input. The news fetch settles first, with a payload that has
  neither \<^verbatim>\<open>current_weather\<close> nor \<^verbatim>\<open>articles\<close>. The promise controller prints the
  heading it prints for every winner and then nothing: its \<^verbatim>\<open>if\<close> ... \<^verbatim>\<open>else if\<close> has no
  final \<^verbatim>\<open>else\<close>. The flat promise script has that branch and prints the payload as the
  winner of the race.
\<close>

theorem unclassified_winner_not_rendered:
  "console (snd (promiseRace demo
       (scripted [complete (Some 200) [weather_body], complete (Some 200) [status_body]])
       SecondSettlesFirst start))
     = [Out (NEWLINE @ ''--- Promise.race() Winner (First Response) ---'')]
   \<and> console (snd (legacy_promiseRace demo
       (scripted [complete (Some 200) [weather_body], complete (Some 200) [status_body]])
       SecondSettlesFirst start))
     = [Out ''--- Promise.race winner (first resolved) ---'',
        Out ''Race winner: {...}'']"
  by (simp add: promiseRace_def legacy_promiseRace_def raceHandlers_def legacy_raceHandlers_def
      onRace_def legacy_onRace_def client_defs model_defs flow_defs view_defs demo_defs Let_def)

section \<open>The supplementary weather fetch\<close>

lemma requests_forEach_article: "requests (snd (forEach_article P xs i w)) = requests w"
  by (induction xs arbitrary: i w) (simp_all add: console_log_def split: sum.splits)

lemma requests_displayNews: "requests (snd (displayNews P articles label w)) = requests w"
  by (simp add: displayNews_def Let_def console_log_def requests_forEach_article
      split: sum.splits bool.splits option.splits json.splits)

lemma requests_displayWeather: "requests (snd (displayWeather P data label w)) = requests w"
  by (simp add: displayWeather_def Let_def console_log_def split: option.splits sum.splits)

lemma footer_lines:
  "console (displayFooter version w)
     = console w @ [Out (NEWLINE @ rule50),
                    Out (CHECK_MARK @ ''  '' @ version @ '' '' @ EM_DASH @ '' Complete''),
                    Out (rule50 @ NEWLINE)]"
  by (simp add: displayFooter_def console_log_def Let_def)

text \<open>
  Claim C6. In the async/await run, when both fetches of the first two stages succeed and
  their results have been displayed (neither display has thrown, which is what lets the
  supplementary fetch start), a failure of the supplementary weather fetch adds exactly
  one error line, for that fetch, to the console as it stood after the first two stages;
  then the footer is printed as on every completed run. The outer \<^verbatim>\<open>catch\<close> does not
  run. Three requests have been sent.
\<close>

theorem supplementary_failure_isolated:
  fixes P :: platform and net :: network and w :: world
  defines "rqW \<equiv> reqOptions (weatherUrl P None None) \<lparr>opt_headers = None\<rparr>"
    and "rqN \<equiv> reqOptions (newsUrl P (Some ''us'') (Some 5)) \<lparr>opt_headers = Some (getNewsHeaders P)\<rparr>"
  defines "w2 \<equiv> (displayHeader VERSION_async w)\<lparr>requests := requests w @ [rqW, rqN]\<rparr>"
  assumes "settle P (net (length (requests w)) rqW) = Fulfilled a"
    and "settle P (net (Suc (length (requests w))) rqN) = Fulfilled b"
    and "displayWeather P (Some a) (Some ''Async/Await'') w2 = (None, shown)"
    and "displayNews P (Some (articles_of (Some b))) (Some ''Async/Await'') shown = (None, rendered)"
    and "settle P (net (Suc (Suc (length (requests w)))) rqW) = Rejected e"
  shows "run P net ord w
           = displayFooter VERSION_async
               (displayError ''Additional Weather Fetch'' e
                 (rendered\<lparr>requests := requests rendered @ [rqW]\<rparr>))
       \<and> console (run P net ord w)
           = console rendered
             @ [Err (CROSS_MARK @ ''  Error [Additional Weather Fetch]: '' @ message e),
                Out (NEWLINE @ rule50),
                Out (CHECK_MARK @ ''  '' @ VERSION_async @ '' '' @ EM_DASH @ '' Complete''),
                Out (rule50 @ NEWLINE)]
       \<and> requests (run P net ord w) = requests w @ [rqW, rqN, rqW]"
proof -
  have both: "Promise_all 2 (settle_order ord (Fulfilled a) (Fulfilled b)) = Fulfilled [Some a, Some b]"
    by (rule all_both_fulfilled)
  have "requests shown = requests w2"
    using requests_displayWeather [of P "Some a" "Some ''Async/Await''" w2] assms(6) by simp
  moreover have "requests rendered = requests shown"
    using requests_displayNews [of P "Some (articles_of (Some b))" "Some ''Async/Await''" shown]
      assms(7)
    by simp
  ultimately have sent: "requests rendered = requests w @ [rqW, rqN]"
    by (simp add: w2_def)
  have third: "additionalFetch P net rendered
      = displayFooter VERSION_async
          (displayError ''Additional Weather Fetch'' e
            (rendered\<lparr>requests := requests rendered @ [rqW]\<rparr>))"
    using assms(8) by (simp add: additionalFetch_def weather_promise sent rqW_def)
  have "run P net ord w = afterBoth P net [Some a, Some b] w2"
    using assms(4,5) by (simp add: run_unfold rqW_def rqN_def w2_def both)
  also have "\<dots> = additionalFetch P net rendered"
    using assms(6,7) by (simp add: afterBoth_def element_def)
  finally have whole: "run P net ord w
      = displayFooter VERSION_async
          (displayError ''Additional Weather Fetch'' e
            (rendered\<lparr>requests := requests rendered @ [rqW]\<rparr>))"
    using third by simp
  show ?thesis
    unfolding whole
    by (simp add: footer_lines displayError_def console_error_def displayFooter_def console_log_def
        Let_def sent)
qed

theorem supplementary_failure_isolated_witness:
  "settle demo (scripted [complete (Some 200) [weather_body], complete (Some 200) [news_body],
         complete (Some 500) [''down'']]
       (Suc (Suc (length (requests start))))
       (reqOptions (weatherUrl demo None None) \<lparr>opt_headers = None\<rparr>))
     = Rejected (JsError ''HTTP request failed with status 500: down'')
   \<and> console (run demo
         (scripted [complete (Some 200) [weather_body], complete (Some 200) [news_body],
            complete (Some 500) [''down'']])
         SecondSettlesFirst start)
     = [Out (NEWLINE @ rule50),
        Out (SUN_BEHIND_RAIN_CLOUD @ ''  Async Weather & News Dashboard''),
        Out (CLIPBOARD @ ''  Version: Async/Await''),
        Out (rule50 @ NEWLINE),
        Out (''[Async/Await] '' @ THERMOMETER @ ''  Temperature in Pretoria: 22'' @ DEGREE_SIGN @ ''C''),
        Out (''[Async/Await] '' @ DASH_SYMBOL @ ''  Wind Speed: 8.3 km/h''),
        Out (NEWLINE @ ''[Async/Await] '' @ NEWSPAPER @ ''  Top News Headlines:''),
        Out ''   1. X'',
        Out ''   2. Y'',
        Err (CROSS_MARK @ ''  Error [Additional Weather Fetch]: HTTP request failed with status 500: down''),
        Out (NEWLINE @ rule50),
        Out (CHECK_MARK @ ''  Async/Await '' @ EM_DASH @ '' Complete''),
        Out (rule50 @ NEWLINE)]"
proof -
  let ?rqW = "reqOptions (weatherUrl demo None None) \<lparr>opt_headers = None\<rparr>"
  let ?rqN = "reqOptions (newsUrl demo (Some ''us'') (Some 5)) \<lparr>opt_headers = Some (getNewsHeaders demo)\<rparr>"
  let ?net = "scripted [complete (Some 200) [weather_body], complete (Some 200) [news_body],
            complete (Some 500) [''down'']]"
  let ?w2 = "(displayHeader VERSION_async start)\<lparr>requests := requests start @ [?rqW, ?rqN]\<rparr>"
  let ?w3 = "displayWeather demo (Some weather_doc) (Some ''Async/Await'') ?w2"
  let ?shown = "displayNews demo (Some (articles_of (Some news_doc))) (Some ''Async/Await'') (snd ?w3)"
  have h1: "settle demo (?net (length (requests start)) ?rqW) = Fulfilled weather_doc"
    by (simp add: client_defs demo_defs)
  have h2: "settle demo (?net (Suc (length (requests start))) ?rqN) = Fulfilled news_doc"
    by (simp add: client_defs demo_defs)
  have "fst ?w3 = None"
    by (simp add: displayWeather_completes weather_doc_def if_truthy_def converts_primitives)
  then have h3: "?w3 = (None, snd ?w3)"
    by (simp add: prod_eq_iff)
  have "fst ?shown = None"
    by (simp add: displayNews_completes articles_of_def news_doc_def converts_primitives)
  then have h4: "?shown = (None, snd ?shown)"
    by (simp add: prod_eq_iff)
  have h5: "settle demo (?net (Suc (Suc (length (requests start)))) ?rqW)
      = Rejected (JsError ''HTTP request failed with status 500: down'')"
    by (simp add: client_defs demo_defs decimal_500)
  have stages: "console (snd ?shown)
     = [Out (NEWLINE @ rule50),
        Out (SUN_BEHIND_RAIN_CLOUD @ ''  Async Weather & News Dashboard''),
        Out (CLIPBOARD @ ''  Version: Async/Await''),
        Out (rule50 @ NEWLINE),
        Out (''[Async/Await] '' @ THERMOMETER @ ''  Temperature in Pretoria: 22'' @ DEGREE_SIGN @ ''C''),
        Out (''[Async/Await] '' @ DASH_SYMBOL @ ''  Wind Speed: 8.3 km/h''),
        Out (NEWLINE @ ''[Async/Await] '' @ NEWSPAPER @ ''  Top News Headlines:''),
        Out ''   1. X'',
        Out ''   2. Y'']"
    by (simp add: flow_defs view_defs demo_defs VERSION_async_def DEFAULT_LOCATION_city_def
        decimal.simps Let_def)
  note isolated = supplementary_failure_isolated [where P = demo and net = ?net and w = start
        and ord = SecondSettlesFirst and a = weather_doc and b = news_doc
        and shown = "snd ?w3" and rendered = "snd ?shown"
        and e = "JsError ''HTTP request failed with status 500: down''", OF h1 h2 h3 h4 h5]
  have whole: "console (run demo ?net SecondSettlesFirst start)
      = console (snd ?shown)
        @ [Err (CROSS_MARK @ ''  Error [Additional Weather Fetch]: ''
              @ message (JsError ''HTTP request failed with status 500: down'')),
           Out (NEWLINE @ rule50),
           Out (CHECK_MARK @ ''  '' @ VERSION_async @ '' '' @ EM_DASH @ '' Complete''),
           Out (rule50 @ NEWLINE)]"
    using isolated by (rule conjunct2 [THEN conjunct1])
  show ?thesis
    unfolding whole stages using h5 by (simp add: VERSION_async_def)
qed

end
